theory Spec2Isabelle
  imports Complex_Main "HOL-Library.AList"
begin

section \<open>The sequence-to-point RNN disaggregator of \<^verbatim>\<open>nilmtk_contrib/torch/rnn_new.py\<close>\<close>

text \<open>
  The theory embeds the class \<^verbatim>\<open>RNN\<close> of \<^verbatim>\<open>rnn_new.py\<close>: its constructor, the
  windowing and normalisation of \<^verbatim>\<open>call_preprocessing\<close>, the statistics of
  \<^verbatim>\<open>set_appliance_params\<close>, the training loop of \<^verbatim>\<open>partial_fit\<close> and
  \<^verbatim>\<open>train_model\<close>, and the inference of \<^verbatim>\<open>disaggregate_chunk\<close>.

  The numeric runtime (numpy, pandas, torch, sklearn) is not part of the repository.
  Its arithmetic is modelled on exact reals extended by the IEEE special values
  (rounding, overflow and signed zeros are not modelled); the learned network, the
  optimiser and the random number generators are parameters of the model.
\<close>

subsection \<open>Numbers: floats as reals with infinities and NaN\<close>

datatype fl = Fin real | PInf | NInf | NaN

definition signed_inf :: "bool \<Rightarrow> fl" where
  "signed_inf pos = (if pos then PInf else NInf)"

fun fl_neg :: "fl \<Rightarrow> fl" where
  "fl_neg (Fin a) = Fin (- a)"
| "fl_neg PInf = NInf"
| "fl_neg NInf = PInf"
| "fl_neg NaN = NaN"

fun fl_add :: "fl \<Rightarrow> fl \<Rightarrow> fl" where
  "fl_add (Fin a) (Fin b) = Fin (a + b)"
| "fl_add NaN _ = NaN"
| "fl_add _ NaN = NaN"
| "fl_add PInf NInf = NaN"
| "fl_add NInf PInf = NaN"
| "fl_add PInf _ = PInf"
| "fl_add _ PInf = PInf"
| "fl_add NInf _ = NInf"
| "fl_add _ NInf = NInf"

definition fl_sub :: "fl \<Rightarrow> fl \<Rightarrow> fl" where
  "fl_sub a b = fl_add a (fl_neg b)"

fun fl_mul :: "fl \<Rightarrow> fl \<Rightarrow> fl" where
  "fl_mul (Fin a) (Fin b) = Fin (a * b)"
| "fl_mul NaN _ = NaN"
| "fl_mul _ NaN = NaN"
| "fl_mul PInf (Fin b) = (if b = 0 then NaN else signed_inf (0 < b))"
| "fl_mul NInf (Fin b) = (if b = 0 then NaN else signed_inf (b < 0))"
| "fl_mul (Fin a) PInf = (if a = 0 then NaN else signed_inf (0 < a))"
| "fl_mul (Fin a) NInf = (if a = 0 then NaN else signed_inf (a < 0))"
| "fl_mul PInf PInf = PInf"
| "fl_mul PInf NInf = NInf"
| "fl_mul NInf PInf = NInf"
| "fl_mul NInf NInf = PInf"

text \<open>
  Division of numpy arrays never raises: a zero divisor gives an infinity or NaN
  (with a warning). The zero of the model is the positive zero.
\<close>

fun fl_div :: "fl \<Rightarrow> fl \<Rightarrow> fl" where
  "fl_div (Fin a) (Fin b) =
     (if b = 0 then (if a = 0 then NaN else signed_inf (0 < a)) else Fin (a / b))"
| "fl_div NaN _ = NaN"
| "fl_div _ NaN = NaN"
| "fl_div (Fin a) PInf = Fin 0"
| "fl_div (Fin a) NInf = Fin 0"
| "fl_div PInf (Fin b) = signed_inf (0 \<le> b)"
| "fl_div NInf (Fin b) = signed_inf (b < 0)"
| "fl_div PInf PInf = NaN"
| "fl_div PInf NInf = NaN"
| "fl_div NInf PInf = NaN"
| "fl_div NInf NInf = NaN"

fun fl_sqrt :: "fl \<Rightarrow> fl" where
  "fl_sqrt (Fin a) = (if a < 0 then NaN else Fin (sqrt a))"
| "fl_sqrt PInf = PInf"
| "fl_sqrt NInf = NaN"
| "fl_sqrt NaN = NaN"

text \<open>Comparisons with NaN are false.\<close>

fun fl_less :: "fl \<Rightarrow> fl \<Rightarrow> bool" where
  "fl_less (Fin a) (Fin b) = (a < b)"
| "fl_less NaN _ = False"
| "fl_less _ NaN = False"
| "fl_less _ NInf = False"
| "fl_less PInf _ = False"
| "fl_less NInf _ = True"
| "fl_less _ PInf = True"

fun fl_less_eq :: "fl \<Rightarrow> fl \<Rightarrow> bool" where
  "fl_less_eq (Fin a) (Fin b) = (a \<le> b)"
| "fl_less_eq NaN _ = False"
| "fl_less_eq _ NaN = False"
| "fl_less_eq NInf _ = True"
| "fl_less_eq _ PInf = True"
| "fl_less_eq _ NInf = False"
| "fl_less_eq PInf _ = False"

text \<open>\<^verbatim>\<open>np.mean\<close> and \<^verbatim>\<open>np.std\<close> (population standard deviation, \<^verbatim>\<open>ddof=0\<close>) of
  all the elements of an array. On an empty array both are \<^verbatim>\<open>0/0\<close>, that is NaN.\<close>

definition np_sum :: "fl list \<Rightarrow> fl" where
  "np_sum xs = foldl fl_add (Fin 0) xs"

definition np_mean :: "fl list \<Rightarrow> fl" where
  "np_mean xs = fl_div (np_sum xs) (Fin (real (length xs)))"

definition np_std :: "fl list \<Rightarrow> fl" where
  "np_std xs =
     (let m = np_mean xs;
          sq = map (\<lambda>x. fl_mul (fl_sub x m) (fl_sub x m)) xs
      in fl_sqrt (np_mean sq))"

subsection \<open>Errors and data frames\<close>

datatype error =
    SequenceLengthError
  | ApplianceNotFoundError
  | ValueError
  | KeyError string
  | ZeroDivisionError

text \<open>
  A pandas data frame is the list of its rows; \<^verbatim>\<open>df.values.flatten()\<close> is the
  concatenation of the rows. The frames given to one \<^verbatim>\<open>pd.concat\<close> are taken to
  have the same column labels, so that \<^verbatim>\<open>pd.concat(frames, axis=0)\<close> stacks the rows;
  on an empty list of frames it raises \<^verbatim>\<open>ValueError\<close>.
\<close>

type_synonym frame = "fl list list"

definition pd_concat :: "frame list \<Rightarrow> error + frame" where
  "pd_concat frames = (if frames = [] then Inl ValueError else Inr (concat frames))"

text \<open>\<^verbatim>\<open>np.pad(a, (k, k), 'constant', constant_values=(0, 0))\<close>: a negative width raises.\<close>

definition np_pad :: "fl list \<Rightarrow> int \<Rightarrow> error + fl list" where
  "np_pad a k =
     (if k < 0 then Inl ValueError
      else Inr (replicate (nat k) (Fin 0) @ a @ replicate (nat k) (Fin 0)))"

text \<open>\<^verbatim>\<open>[a[i:i + n] for i in range(len(a) - n + 1)]\<close>, for \<^verbatim>\<open>n \<ge> 0\<close> (the padding
  before it has raised on a negative \<^verbatim>\<open>n\<close>).\<close>

definition sliding_windows :: "fl list \<Rightarrow> int \<Rightarrow> fl list list" where
  "sliding_windows a n =
     map (\<lambda>i. take (nat n) (drop i a)) [0 ..< nat (int (length a) - n + 1)]"

text \<open>\<^verbatim>\<open>a.reshape((-1, n, 1))\<close> on the flattened values: the rows of length \<^verbatim>\<open>n\<close>.
  It raises unless \<^verbatim>\<open>n\<close> is positive and divides the number of elements.\<close>

definition reshape_windows :: "fl list \<Rightarrow> int \<Rightarrow> error + fl list list" where
  "reshape_windows a n =
     (if n \<le> 0 \<or> int (length a) mod n \<noteq> 0 then Inl ValueError
      else Inr (map (\<lambda>i. take (nat n) (drop (i * nat n) a)) [0 ..< length a div nat n]))"

subsection \<open>The estimator object\<close>

record stats =
  mean :: fl
  std :: fl

text \<open>The attributes of an \<^verbatim>\<open>RNN\<close> object. \<^verbatim>\<open>models\<close> is an ordered dictionary from
  appliance names to network objects (references into the store of networks);
  \<^verbatim>\<open>appliance_params\<close> is a dictionary from appliance names to statistics; the
  attribute \<^verbatim>\<open>file_prefix\<close> is the field \<open>weights_file_prefix\<close>.\<close>

record rnn =
  models :: "(string \<times> nat) list"
  weights_file_prefix :: string
  chunk_wise_training :: bool
  sequence_length :: int
  n_epochs :: int
  batch_size :: int
  appliance_params :: "(string \<times> stats) list"
  mains_mean :: fl
  mains_std :: fl

text \<open>The dictionary \<^verbatim>\<open>params\<close> of the constructor: an absent key is \<open>None\<close>.\<close>

record params =
  p_chunk_wise_training :: "bool option"
  p_sequence_length :: "int option"
  p_n_epochs :: "int option"
  p_batch_size :: "int option"
  p_appliance_params :: "(string \<times> stats) list option"
  p_mains_mean :: "fl option"
  p_mains_std :: "fl option"

definition dict_get :: "'a option \<Rightarrow> 'a \<Rightarrow> 'a" where
  "dict_get v d = (case v of None \<Rightarrow> d | Some x \<Rightarrow> x)"

definition RNN_init :: "params \<Rightarrow> error + rnn" where
  "RNN_init ps =
     (let self = \<lparr> models = [],
                   weights_file_prefix = ''rnn-temp-weights'',
                   chunk_wise_training = dict_get (p_chunk_wise_training ps) False,
                   sequence_length = dict_get (p_sequence_length ps) 19,
                   n_epochs = dict_get (p_n_epochs ps) 10,
                   batch_size = dict_get (p_batch_size ps) 512,
                   appliance_params = dict_get (p_appliance_params ps) [],
                   mains_mean = dict_get (p_mains_mean ps) (Fin 1800),
                   mains_std = dict_get (p_mains_std ps) (Fin 600) \<rparr>
      in if sequence_length self mod 2 = 0 then Inl SequenceLengthError else Inr self)"

subsection \<open>Preprocessing: windowing and normalisation\<close>

text \<open>The body of the loop over the mains chunks, the same in the training branch
  (lines 332--339) and in the inference branch (lines 379--386).\<close>

definition window_mains :: "rnn \<Rightarrow> frame \<Rightarrow> error + frame" where
  "window_mains self mains =
     (let new_mains = concat mains;
          n = sequence_length self;
          units_to_pad = n div 2
      in case np_pad new_mains units_to_pad of
           Inl e \<Rightarrow> Inl e
         | Inr padded \<Rightarrow>
             Inr (map (map (\<lambda>x. fl_div (fl_sub x (mains_mean self)) (mains_std self)))
                    (sliding_windows padded n)))"

fun window_all :: "rnn \<Rightarrow> frame list \<Rightarrow> error + frame list" where
  "window_all self [] = Inr []"
| "window_all self (mains # rest) =
     (case window_mains self mains of
        Inl e \<Rightarrow> Inl e
      | Inr df \<Rightarrow> (case window_all self rest of Inl e \<Rightarrow> Inl e | Inr dfs \<Rightarrow> Inr (df # dfs)))"

definition dict_lookup :: "(string \<times> 'a) list \<Rightarrow> string \<Rightarrow> 'a option" where
  "dict_lookup d k = map_of d k"

text \<open>The loop over the appliances of the training branch: the first appliance
  without statistics raises.\<close>

fun normalize_appliances ::
  "rnn \<Rightarrow> (string \<times> frame list) list \<Rightarrow> error + (string \<times> frame list) list" where
  "normalize_appliances self [] = Inr []"
| "normalize_appliances self ((app_name, app_df_list) # rest) =
     (case dict_lookup (appliance_params self) app_name of
        None \<Rightarrow> Inl ApplianceNotFoundError
      | Some st \<Rightarrow>
          (let processed =
                 map (\<lambda>app_df. map (\<lambda>x. [fl_div (fl_sub x (mean st)) (std st)]) (concat app_df))
                   app_df_list
           in case normalize_appliances self rest of
                Inl e \<Rightarrow> Inl e
              | Inr apps \<Rightarrow> Inr ((app_name, processed) # apps)))"

datatype preprocessed =
    TrainData "frame list" "(string \<times> frame list) list"
  | TestData "frame list"

definition call_preprocessing ::
  "rnn \<Rightarrow> frame list \<Rightarrow> (string \<times> frame list) list \<Rightarrow> string \<Rightarrow> error + preprocessed" where
  "call_preprocessing self mains_lst submeters_lst method =
     (if method = ''train'' then
        (case window_all self mains_lst of
           Inl e \<Rightarrow> Inl e
         | Inr mains_df_list \<Rightarrow>
             (case normalize_appliances self submeters_lst of
                Inl e \<Rightarrow> Inl e
              | Inr appliance_list \<Rightarrow> Inr (TrainData mains_df_list appliance_list)))
      else
        (case window_all self mains_lst of
           Inl e \<Rightarrow> Inl e
         | Inr mains_df_list \<Rightarrow> Inr (TestData mains_df_list)))"

subsection \<open>The appliance parameter store\<close>

text \<open>Lines 400--404: the statistics of one appliance, from all the readings of all
  its chunks (\<open>df\<close> is the concatenated frame).\<close>

definition appliance_stats :: "frame \<Rightarrow> stats" where
  "appliance_stats df =
     (let l = concat df;
          app_mean = np_mean l;
          app_std = np_std l;
          app_std = (if fl_less app_std (Fin 1) then Fin 100 else app_std)
      in \<lparr>mean = app_mean, std = app_std\<rparr>)"

text \<open>\<^verbatim>\<open>set_appliance_params\<close>: the loop updates \<^verbatim>\<open>self.appliance_params\<close> appliance
  by appliance; an appliance with no chunk makes \<^verbatim>\<open>pd.concat\<close> raise, and the
  entries written before it stay.\<close>

fun set_appliance_params :: "rnn \<Rightarrow> (string \<times> frame list) list \<Rightarrow> error option \<times> rnn" where
  "set_appliance_params self [] = (None, self)"
| "set_appliance_params self ((app_name, df_list) # rest) =
     (case pd_concat df_list of
        Inl e \<Rightarrow> (Some e, self)
      | Inr df \<Rightarrow>
          set_appliance_params
            (self\<lparr>appliance_params :=
               AList.update app_name (appliance_stats df) (appliance_params self)\<rparr>)
            rest)"

subsection \<open>The numeric backend and the store of networks\<close>

text \<open>
  What the tensor runtime computes is a parameter of the model. \<open>'w\<close> is the value of
  all the weights of one network, \<open>'o\<close> the state of an optimiser, \<open>'g\<close> the state of
  the random number generators.
  \<^item> \<open>new_network n g\<close>: the weights of a fresh \<^verbatim>\<open>RNNModel(n)\<close>, randomly initialised;
  \<^item> \<open>forward w x\<close>: the output of the network in evaluation mode on one window;
  \<^item> \<open>adam w\<close>: the state of a fresh \<^verbatim>\<open>optim.Adam(model.parameters(), lr=0.001)\<close>;
  \<^item> \<open>train_batch w o g batch\<close>: one pass of the body of the training loop
    (\<^verbatim>\<open>zero_grad\<close>, forward in training mode, loss, \<^verbatim>\<open>backward\<close>, \<^verbatim>\<open>step\<close>): the new
    weights, optimiser state, generator state and the loss of the batch;
  \<^item> \<open>randperm g n\<close>: the order in which a shuffling \<^verbatim>\<open>DataLoader\<close> visits \<open>n\<close> samples;
  \<^item> \<open>split_permutation n\<close>: the permutation of \<open>n\<close> samples that
    \<^verbatim>\<open>train_test_split(..., random_state=42)\<close> draws.
\<close>

record ('w, 'o, 'g) backend =
  new_network :: "int \<Rightarrow> 'g \<Rightarrow> 'w \<times> 'g"
  forward :: "'w \<Rightarrow> fl list \<Rightarrow> fl"
  adam :: "'w \<Rightarrow> 'o"
  train_batch :: "'w \<Rightarrow> 'o \<Rightarrow> 'g \<Rightarrow> (fl list \<times> fl) list \<Rightarrow> 'w \<times> 'o \<times> 'g \<times> fl"
  randperm :: "'g \<Rightarrow> nat \<Rightarrow> nat list \<times> 'g"
  split_permutation :: "nat \<Rightarrow> nat list"

text \<open>
  The state a call works on: the estimator object, the store of network objects
  (\<open>networks W r\<close> is the current value of the parameter tensors of the network
  object \<open>r\<close>; \<open>next_ref\<close> is the next unused reference), the files written by
  \<^verbatim>\<open>torch.save\<close>, and the random number generators.
\<close>

record ('w, 'g) world =
  obj :: rnn
  networks :: "nat \<Rightarrow> 'w"
  next_ref :: nat
  disk :: "string \<Rightarrow> 'w option"
  rng :: 'g

text \<open>\<^verbatim>\<open>self.models[appliance_name] = self.return_network()\<close>.\<close>

definition return_network ::
  "('w, 'o, 'g) backend \<Rightarrow> ('w, 'g) world \<Rightarrow> nat \<times> ('w, 'g) world" where
  "return_network b W =
     (let (w, g) = new_network b (sequence_length (obj W)) (rng W);
          r = next_ref W
      in (r, W\<lparr>networks := (networks W)(r := w), next_ref := Suc r, rng := g\<rparr>))"

subsection \<open>Data loaders\<close>

type_synonym sample = "fl list \<times> fl"

record 'a loader =
  dataset :: "'a list"
  bsize :: nat
  shuffle :: bool

text \<open>\<^verbatim>\<open>DataLoader(dataset, batch_size=..., shuffle=...)\<close> raises on a batch size that
  is not positive.\<close>

definition DataLoader :: "'a list \<Rightarrow> int \<Rightarrow> bool \<Rightarrow> error + 'a loader" where
  "DataLoader ds bs sh =
     (if bs \<le> 0 then Inl ValueError
      else Inr \<lparr>dataset = ds, bsize = nat bs, shuffle = sh\<rparr>)"

definition batches_of :: "nat \<Rightarrow> 'a list \<Rightarrow> 'a list list" where
  "batches_of k xs = map (\<lambda>i. take k (drop (i * k) xs)) [0 ..< (length xs + k - 1) div k]"

definition loader_len :: "'a loader \<Rightarrow> nat" where
  "loader_len l = (length (dataset l) + bsize l - 1) div bsize l"

text \<open>\<^verbatim>\<open>criterion(outputs.squeeze(), batch_y.squeeze()).item()\<close> with the mean squared
  error, in evaluation mode.\<close>

definition batch_loss :: "('w, 'o, 'g) backend \<Rightarrow> 'w \<Rightarrow> sample list \<Rightarrow> fl" where
  "batch_loss b w batch =
     np_mean (map (\<lambda>(x, y). fl_mul (fl_sub (forward b w x) y) (fl_sub (forward b w x) y)) batch)"

subsection \<open>The training loop of one appliance\<close>

text \<open>
  \<^verbatim>\<open>model.state_dict()\<close> returns a dictionary whose tensors share their storage with
  the parameters of the module (torch documents the returned object as a shallow
  copy holding references to the module's parameters and buffers), and
  \<^verbatim>\<open>OrderedDict.copy()\<close> is a shallow copy: the copy holds the same tensors. A state
  dictionary is therefore a reference to the tensors of a network object, not their
  value. \<^verbatim>\<open>torch.save\<close> writes the current values of the tensors to the file;
  \<^verbatim>\<open>load_state_dict\<close> copies the current values of the tensors into the parameters.
\<close>

datatype state_dict = TensorsOf nat

definition state_dict_of :: "nat \<Rightarrow> state_dict" where
  "state_dict_of model = TensorsOf model"

definition dict_copy :: "state_dict \<Rightarrow> state_dict" where
  "dict_copy sd = sd"

definition torch_save :: "('w, 'g) world \<Rightarrow> state_dict \<Rightarrow> string \<Rightarrow> ('w, 'g) world" where
  "torch_save W sd filepath =
     (case sd of TensorsOf r \<Rightarrow> W\<lparr>disk := (disk W)(filepath := Some (networks W r))\<rparr>)"

definition load_state_dict :: "('w, 'g) world \<Rightarrow> nat \<Rightarrow> state_dict \<Rightarrow> ('w, 'g) world" where
  "load_state_dict W model sd =
     (case sd of TensorsOf r \<Rightarrow> W\<lparr>networks := (networks W)(model := networks W r)\<rparr>)"

function str_nat :: "nat \<Rightarrow> string" where
  "str_nat n =
     (if n < 10 then [''0123456789'' ! n]
      else str_nat (n div 10) @ [''0123456789'' ! (n mod 10)])"
  by pat_completeness auto
termination
  by (relation "measure id") auto

definition str_int :: "int \<Rightarrow> string" where
  "str_int i = (if i < 0 then ''-'' @ str_nat (nat (- i)) else str_nat (nat i))"

text \<open>\<^verbatim>\<open>f"{self.file_prefix}-{appliance_name.replace(' ', '_')}-epoch{current_epoch}.pth"\<close>\<close>

definition checkpoint_path :: "rnn \<Rightarrow> string \<Rightarrow> int \<Rightarrow> string" where
  "checkpoint_path self appliance_name current_epoch =
     weights_file_prefix self @ ''-''
       @ map (\<lambda>c. if c = CHR '' '' then CHR ''_'' else c) appliance_name
       @ ''-epoch'' @ str_int current_epoch @ ''.pth''"

text \<open>The inner loop over the training batches: every \<^verbatim>\<open>optimizer.step()\<close> updates
  the parameter tensors of the network object in place.\<close>

fun train_batches ::
  "('w, 'o, 'g) backend \<Rightarrow> nat \<Rightarrow> sample list list \<Rightarrow> ('w, 'g) world \<times> 'o \<Rightarrow> ('w, 'g) world \<times> 'o" where
  "train_batches b model [] (W, opt) = (W, opt)"
| "train_batches b model (batch # rest) (W, opt) =
     (let (w, opt', g, loss) = train_batch b (networks W model) opt (rng W) batch
      in train_batches b model rest (W\<lparr>networks := (networks W)(model := w), rng := g\<rparr>, opt'))"

text \<open>The batches one pass over a loader yields: a shuffling loader draws a new
  order from the generator at every pass.\<close>

definition loader_batches ::
  "('w, 'o, 'g) backend \<Rightarrow> 'a loader \<Rightarrow> 'g \<Rightarrow> 'a list list \<times> 'g" where
  "loader_batches b l g =
     (if shuffle l then
        (let (order, g') = randperm b g (length (dataset l))
         in (batches_of (bsize l) (map (\<lambda>i. dataset l ! i) order), g'))
      else (batches_of (bsize l) (dataset l), g))"

text \<open>The local variables of \<^verbatim>\<open>train_model\<close> that live across epochs.\<close>

record ('w, 'o, 'g) train_state =
  ts_world :: "('w, 'g) world"
  ts_optimizer :: 'o
  best_val_loss :: fl
  best_model_state :: "state_dict option"

text \<open>One pass of the loop over the epochs (lines 198--252).\<close>

definition run_epoch ::
  "('w, 'o, 'g) backend \<Rightarrow> nat \<Rightarrow> sample loader \<Rightarrow> sample loader \<Rightarrow> string \<Rightarrow> int \<Rightarrow>
     ('w, 'o, 'g) train_state \<Rightarrow> error option \<times> ('w, 'o, 'g) train_state" where
  "run_epoch b model train_loader val_loader appliance_name current_epoch st =
     (let W = ts_world st;
          (tbs, g) = loader_batches b train_loader (rng W);
          (W1, opt1) = train_batches b model tbs (W\<lparr>rng := g\<rparr>, ts_optimizer st);
          (vbs, g1) = loader_batches b val_loader (rng W1);
          W2 = W1\<lparr>rng := g1\<rparr>;
          val_sum = foldl fl_add (Fin 0) (map (batch_loss b (networks W2 model)) vbs);
          st1 = st\<lparr>ts_world := W2, ts_optimizer := opt1\<rparr>
      in if loader_len train_loader = 0 then (Some ZeroDivisionError, st1)
         else if loader_len val_loader = 0 then (Some ZeroDivisionError, st1)
         else
           (let val_loss = fl_div val_sum (Fin (real (loader_len val_loader)))
            in if fl_less val_loss (best_val_loss st1) then
                 (let bms = dict_copy (state_dict_of model);
                      filepath = checkpoint_path (obj W2) appliance_name current_epoch
                  in (None, st1\<lparr>ts_world := torch_save W2 bms filepath,
                                 best_val_loss := val_loss,
                                 best_model_state := Some bms\<rparr>))
               else (None, st1)))"

fun run_epochs ::
  "('w, 'o, 'g) backend \<Rightarrow> nat \<Rightarrow> sample loader \<Rightarrow> sample loader \<Rightarrow> string \<Rightarrow> int \<Rightarrow> nat \<Rightarrow>
     ('w, 'o, 'g) train_state \<Rightarrow> error option \<times> ('w, 'o, 'g) train_state" where
  "run_epochs b model train_loader val_loader appliance_name current_epoch 0 st = (None, st)"
| "run_epochs b model train_loader val_loader appliance_name current_epoch (Suc k) st =
     (case run_epoch b model train_loader val_loader appliance_name current_epoch st of
        (Some e, st') \<Rightarrow> (Some e, st')
      | (None, st') \<Rightarrow>
          run_epochs b model train_loader val_loader appliance_name current_epoch k st')"

definition train_model ::
  "('w, 'o, 'g) backend \<Rightarrow> ('w, 'g) world \<Rightarrow> nat \<Rightarrow> sample loader \<Rightarrow> sample loader \<Rightarrow> string \<Rightarrow> int \<Rightarrow>
     error option \<times> ('w, 'g) world" where
  "train_model b W model train_loader val_loader appliance_name current_epoch =
     (let st0 = \<lparr>ts_world = W, ts_optimizer = adam b (networks W model),
                 best_val_loss = PInf, best_model_state = None\<rparr>
      in case run_epochs b model train_loader val_loader appliance_name current_epoch
                (nat (n_epochs (obj W))) st0 of
           (Some e, st) \<Rightarrow> (Some e, ts_world st)
         | (None, st) \<Rightarrow>
             (case best_model_state st of
                None \<Rightarrow> (None, ts_world st)
              | Some bms \<Rightarrow> (None, load_state_dict (ts_world st) model bms)))"

subsection \<open>Training: \<^verbatim>\<open>partial_fit\<close>\<close>

text \<open>\<^verbatim>\<open>train_test_split(x, y, test_size=0.15, random_state=42)\<close>: the test part is the
  first \<^verbatim>\<open>ceil(0.15 * n)\<close> entries of the permutation, the training part the rest.
  Arrays of different lengths and an empty training part raise.\<close>

definition train_test_split ::
  "('w, 'o, 'g) backend \<Rightarrow> fl list list \<Rightarrow> fl list \<Rightarrow>
     error + (fl list list \<times> fl list list \<times> fl list \<times> fl list)" where
  "train_test_split b x y =
     (let n = length x;
          n_test = (15 * n + 99) div 100;
          n_train = n - n_test
      in if length y \<noteq> n \<or> n_train = 0 then Inl ValueError
         else
           (let perm = split_permutation b n;
                test = take n_test perm;
                train = take n_train (drop n_test perm)
            in Inr (map (\<lambda>i. x ! i) train, map (\<lambda>i. x ! i) test,
                    map (\<lambda>i. y ! i) train, map (\<lambda>i. y ! i) test)))"

text \<open>The loop over the appliances (lines 148--186). \<open>train_main\<close> is the array of
  windows, \<open>app_power\<close> (the variable \<^verbatim>\<open>power\<close>) the column of targets of the appliance.\<close>

fun fit_appliances ::
  "('w, 'o, 'g) backend \<Rightarrow> fl list list \<Rightarrow> int \<Rightarrow> (string \<times> fl list) list \<Rightarrow>
     ('w, 'g) world \<Rightarrow> error option \<times> ('w, 'g) world" where
  "fit_appliances b train_main current_epoch [] W = (None, W)"
| "fit_appliances b train_main current_epoch ((appliance_name, app_power) # rest) W =
     (let W1 =
            (if dict_lookup (models (obj W)) appliance_name = None then
               (let (r, W') = return_network b W
                in W'\<lparr>obj := (obj W')\<lparr>models := AList.update appliance_name r (models (obj W'))\<rparr>\<rparr>)
             else W)
      in case dict_lookup (models (obj W1)) appliance_name of
           None \<Rightarrow> (Some (KeyError appliance_name), W1)
         | Some model \<Rightarrow>
             if 0 < length (concat train_main) \<and> 10 < length train_main then
               (case train_test_split b train_main app_power of
                  Inl e \<Rightarrow> (Some e, W1)
                | Inr (train_x, val_x, train_y, val_y) \<Rightarrow>
                    (case DataLoader (zip train_x train_y) (batch_size (obj W1)) True of
                       Inl e \<Rightarrow> (Some e, W1)
                     | Inr train_loader \<Rightarrow>
                         (case DataLoader (zip val_x val_y) (batch_size (obj W1)) False of
                            Inl e \<Rightarrow> (Some e, W1)
                          | Inr val_loader \<Rightarrow>
                              (case train_model b W1 model train_loader val_loader
                                      appliance_name current_epoch of
                                 (Some e, W2) \<Rightarrow> (Some e, W2)
                               | (None, W2) \<Rightarrow>
                                   fit_appliances b train_main current_epoch rest W2))))
             else fit_appliances b train_main current_epoch rest W1)"

text \<open>Lines 137--141: the chunks of every appliance are concatenated and reshaped
  to one column.\<close>

fun concat_appliances ::
  "(string \<times> frame list) list \<Rightarrow> error + (string \<times> fl list) list" where
  "concat_appliances [] = Inr []"
| "concat_appliances ((app_name, app_df) # rest) =
     (case pd_concat app_df of
        Inl e \<Rightarrow> Inl e
      | Inr df \<Rightarrow>
          (case concat_appliances rest of
             Inl e \<Rightarrow> Inl e
           | Inr apps \<Rightarrow> Inr ((app_name, concat df) # apps)))"

text \<open>Lines 121--141, before the loop over the appliances: the statistics are
  computed when the store is empty, the data are preprocessed when
  \<open>do_preprocessing\<close> holds, the mains windows are stacked and reshaped, and the
  chunks of every appliance are concatenated. The result is the estimator object as
  these lines leave it, with the error raised or the arrays \<open>train_main\<close> and
  \<open>train_appliances\<close> of the loop. The case \<open>TestData\<close> cannot occur (the method is
  \<^verbatim>\<open>'train'\<close>).\<close>

definition prepare_training ::
  "rnn \<Rightarrow> frame list \<Rightarrow> (string \<times> frame list) list \<Rightarrow> bool \<Rightarrow>
     rnn \<times> (error + fl list list \<times> (string \<times> fl list) list)" where
  "prepare_training self train_main train_appliances do_preprocessing =
     (let (err, self1) =
            (if length (appliance_params self) = 0
             then set_appliance_params self train_appliances
             else (None, self))
      in case err of
           Some e \<Rightarrow> (self1, Inl e)
         | None \<Rightarrow>
             (case (if do_preprocessing
                    then call_preprocessing self1 train_main train_appliances ''train''
                    else Inr (TrainData train_main train_appliances)) of
                Inl e \<Rightarrow> (self1, Inl e)
              | Inr (TestData _) \<Rightarrow> (self1, Inl ValueError)
              | Inr (TrainData mains apps) \<Rightarrow>
                  (case pd_concat mains of
                     Inl e \<Rightarrow> (self1, Inl e)
                   | Inr df \<Rightarrow>
                       (case reshape_windows (concat df) (sequence_length self1) of
                          Inl e \<Rightarrow> (self1, Inl e)
                        | Inr windows \<Rightarrow>
                            (case concat_appliances apps of
                               Inl e \<Rightarrow> (self1, Inl e)
                             | Inr powers \<Rightarrow> (self1, Inr (windows, powers)))))))"

text \<open>\<^verbatim>\<open>partial_fit\<close>. The call returns nothing; the model gives the error raised, if
  any, and the state the call leaves.\<close>

definition partial_fit ::
  "('w, 'o, 'g) backend \<Rightarrow> ('w, 'g) world \<Rightarrow> frame list \<Rightarrow> (string \<times> frame list) list \<Rightarrow>
     bool \<Rightarrow> int \<Rightarrow> error option \<times> ('w, 'g) world" where
  "partial_fit b W train_main train_appliances do_preprocessing current_epoch =
     (let (self1, prepared) =
            prepare_training (obj W) train_main train_appliances do_preprocessing;
          W1 = W\<lparr>obj := self1\<rparr>
      in case prepared of
           Inl e \<Rightarrow> (Some e, W1)
         | Inr (windows, powers) \<Rightarrow> fit_appliances b windows current_epoch powers W1)"

subsection \<open>Inference: \<^verbatim>\<open>disaggregate_chunk\<close>\<close>

text \<open>\<^verbatim>\<open>np.concatenate\<close> raises on an empty list of arrays.\<close>

definition np_concatenate :: "'a list list \<Rightarrow> error + 'a list" where
  "np_concatenate arrays = (if arrays = [] then Inl ValueError else Inr (concat arrays))"

text \<open>A result table: the columns in the order in which the dictionary received
  them. The conversion to \<^verbatim>\<open>float32\<close> is not modelled.\<close>

type_synonym table = "(string \<times> fl list) list"

text \<open>The loop over \<^verbatim>\<open>self.models.items()\<close> for one chunk (lines 285--313).\<close>

fun predict_appliances ::
  "('w, 'o, 'g) backend \<Rightarrow> ('w, 'g) world \<Rightarrow> fl list list \<Rightarrow> (string \<times> nat) list \<Rightarrow>
     table \<Rightarrow> error + table" where
  "predict_appliances b W test_main [] disggregation_dict = Inr disggregation_dict"
| "predict_appliances b W test_main ((appliance, model) # rest) disggregation_dict =
     (case DataLoader test_main (batch_size (obj W)) False of
        Inl e \<Rightarrow> Inl e
      | Inr test_loader \<Rightarrow>
          (let predictions =
                 map (map (forward b (networks W model)))
                   (batches_of (bsize test_loader) (dataset test_loader))
           in case np_concatenate predictions of
                Inl e \<Rightarrow> Inl e
              | Inr prediction \<Rightarrow>
                  (case dict_lookup (appliance_params (obj W)) appliance of
                     None \<Rightarrow> Inl (KeyError appliance)
                   | Some st \<Rightarrow>
                       (let prediction = map (\<lambda>p. fl_add (mean st) (fl_mul p (std st))) prediction;
                            valid_predictions =
                              map (\<lambda>v. if fl_less (Fin 0) v then v else Fin 0) prediction
                        in predict_appliances b W test_main rest
                             (AList.update appliance valid_predictions disggregation_dict)))))"

text \<open>The loop over the chunks (lines 274--316).\<close>

fun disaggregate_chunks ::
  "('w, 'o, 'g) backend \<Rightarrow> ('w, 'g) world \<Rightarrow> frame list \<Rightarrow> error + table list" where
  "disaggregate_chunks b W [] = Inr []"
| "disaggregate_chunks b W (test_main # rest) =
     (case reshape_windows (concat test_main) (sequence_length (obj W)) of
        Inl e \<Rightarrow> Inl e
      | Inr windows \<Rightarrow>
          (case predict_appliances b W windows (models (obj W)) [] of
             Inl e \<Rightarrow> Inl e
           | Inr results \<Rightarrow>
               (case disaggregate_chunks b W rest of
                  Inl e \<Rightarrow> Inl e
                | Inr test_predictions \<Rightarrow> Inr (results # test_predictions))))"

text \<open>\<^verbatim>\<open>disaggregate_chunk\<close>: the result or the error raised, and the state the call
  leaves (a registry given as \<open>model\<close> replaces \<^verbatim>\<open>self.models\<close>). The case
  \<open>TrainData\<close> cannot occur (the method is \<^verbatim>\<open>'test'\<close>).\<close>

definition disaggregate_chunk ::
  "('w, 'o, 'g) backend \<Rightarrow> ('w, 'g) world \<Rightarrow> frame list \<Rightarrow> (string \<times> nat) list option \<Rightarrow>
     bool \<Rightarrow> (error + table list) \<times> ('w, 'g) world" where
  "disaggregate_chunk b W test_main_list model do_preprocessing =
     (let W1 = (case model of None \<Rightarrow> W | Some m \<Rightarrow> W\<lparr>obj := (obj W)\<lparr>models := m\<rparr>\<rparr>)
      in case (if do_preprocessing
               then call_preprocessing (obj W1) test_main_list [] ''test''
               else Inr (TestData test_main_list)) of
           Inl e \<Rightarrow> (Inl e, W1)
         | Inr (TrainData _ _) \<Rightarrow> (Inl ValueError, W1)
         | Inr (TestData mains_df_list) \<Rightarrow> (disaggregate_chunks b W1 mains_df_list, W1))"

subsection \<open>Concrete inputs\<close>

text \<open>An estimator with \<^verbatim>\<open>sequence_length=3\<close>, \<^verbatim>\<open>mains_mean=0\<close> and \<^verbatim>\<open>mains_std=1\<close>, and
  the mains chunk \<^verbatim>\<open>[0,0,0,5,0,0,0]\<close> (a frame of one column).\<close>

definition rnn_seq3 :: rnn where
  "rnn_seq3 =
     \<lparr> models = [], weights_file_prefix = ''rnn-temp-weights'', chunk_wise_training = False,
       sequence_length = 3, n_epochs = 10, batch_size = 512, appliance_params = [],
       mains_mean = Fin 0, mains_std = Fin 1 \<rparr>"

definition spike_chunk :: frame where
  "spike_chunk = [[Fin 0], [Fin 0], [Fin 0], [Fin 5], [Fin 0], [Fin 0], [Fin 0]]"

definition no_params :: params where
  "no_params =
     \<lparr> p_chunk_wise_training = None, p_sequence_length = None, p_n_epochs = None,
       p_batch_size = None, p_appliance_params = None, p_mains_mean = None,
       p_mains_std = None \<rparr>"

text \<open>An appliance with the readings \<^verbatim>\<open>[10,10,10]\<close> in one chunk.\<close>

definition constant_chunks :: "frame list" where
  "constant_chunks = [[[Fin 10], [Fin 10], [Fin 10]]]"

text \<open>
  A backend to run the model on: the weights of a network are one integer \<open>w\<close>, the
  network maps a window to \<open>w\<close> times the sum of the window, a fresh network has the
  weight 0, a training batch adds 1 to the weight, and no order is shuffled.
\<close>

definition toy_backend :: "(int, unit, unit) backend" where
  "toy_backend =
     \<lparr> new_network = (\<lambda>n g. (0, g)),
       forward = (\<lambda>w x. fl_mul (Fin (real_of_int w)) (np_sum x)),
       adam = (\<lambda>w. ()),
       train_batch = (\<lambda>w opt g batch. (w + 1, opt, g, Fin 0)),
       randperm = (\<lambda>g n. ([0 ..< n], g)),
       split_permutation = (\<lambda>n. [0 ..< n]) \<rparr>"

text \<open>An estimator that knows the statistics of the fridge (mean 10, standard
  deviation 100) and holds one network for it, of weight \<open>-2\<close>.\<close>

definition fridge_rnn :: rnn where
  "fridge_rnn =
     \<lparr> models = [(''fridge'', 0)], weights_file_prefix = ''rnn-temp-weights'',
       chunk_wise_training = False, sequence_length = 3, n_epochs = 2, batch_size = 512,
       appliance_params = [(''fridge'', \<lparr>mean = Fin 10, std = Fin 100\<rparr>)],
       mains_mean = Fin 0, mains_std = Fin 1 \<rparr>"

definition fridge_world :: "(int, unit) world" where
  "fridge_world =
     \<lparr> obj = fridge_rnn, networks = (\<lambda>r. - 2), next_ref = 1, disk = (\<lambda>path. None), rng = () \<rparr>"

text \<open>The windows of \<open>spike_chunk\<close> for the window length 3.\<close>

definition spike_windows :: "fl list list" where
  "spike_windows =
     [[Fin 0, Fin 0, Fin 0], [Fin 0, Fin 0, Fin 0], [Fin 0, Fin 0, Fin 5],
      [Fin 0, Fin 5, Fin 0], [Fin 5, Fin 0, Fin 0], [Fin 0, Fin 0, Fin 0],
      [Fin 0, Fin 0, Fin 0]]"

text \<open>One training sample (the window \<^verbatim>\<open>[1,0,0]\<close> with the target \<open>-1\<close>), used as the
  training set and as the validation set. The toy network of weight \<open>w\<close> has the
  validation loss \<open>(w + 1)\<^sup>2\<close> on it.\<close>

definition toy_samples :: "sample list" where
  "toy_samples = [([Fin 1, Fin 0, Fin 0], Fin (- 1))]"

definition toy_train_loader :: "sample loader" where
  "toy_train_loader = \<lparr>dataset = toy_samples, bsize = 512, shuffle = True\<rparr>"

definition toy_val_loader :: "sample loader" where
  "toy_val_loader = \<lparr>dataset = toy_samples, bsize = 512, shuffle = False\<rparr>"

text \<open>A new estimator with the window length 3 and an empty store, in a state with
  no network, and an appliance of seven readings \<^verbatim>\<open>10\<close> in one chunk.\<close>

definition fresh_world :: "(int, unit) world" where
  "fresh_world =
     \<lparr> obj = rnn_seq3, networks = (\<lambda>r. 0), next_ref = 0, disk = (\<lambda>path. None), rng = () \<rparr>"

definition kettle_chunks :: "frame list" where
  "kettle_chunks =
     [[[Fin 10], [Fin 10], [Fin 10], [Fin 10], [Fin 10], [Fin 10], [Fin 10]]]"

text \<open>The estimator \<open>rnn_seq3\<close> once the statistics of a kettle with the readings of
  \<open>kettle_chunks\<close> are stored, and the normalised targets of that kettle.\<close>

definition kettle_rnn :: rnn where
  "kettle_rnn = rnn_seq3\<lparr>appliance_params := [(''kettle'', \<lparr>mean = Fin 10, std = Fin 100\<rparr>)]\<rparr>"

definition kettle_targets :: "fl list" where
  "kettle_targets = [Fin 0, Fin 0, Fin 0, Fin 0, Fin 0, Fin 0, Fin 0]"

section \<open>Properties\<close>

subsection \<open>Windowing\<close>

lemma length_sliding_windows:
  "length (sliding_windows a n) = nat (int (length a) - n + 1)"
  by (simp add: sliding_windows_def)

lemma sliding_windows_width:
  assumes "w \<in> set (sliding_windows a n)" and "0 \<le> n"
  shows "int (length w) = n"
proof -
  from assms(1) obtain i
    where i: "i < nat (int (length a) - n + 1)" and w: "w = take (nat n) (drop i a)"
    by (auto simp: sliding_windows_def)
  from i assms(2) have "nat n \<le> length a - i" by linarith
  with w assms(2) show ?thesis by simp
qed

lemma np_pad_length:
  "np_pad a k = Inr p \<Longrightarrow> length p = length a + 2 * nat k"
  by (auto simp: np_pad_def split: if_splits)

lemma window_mains_count:
  assumes "odd (sequence_length self)" and "0 < sequence_length self"
  shows "\<exists>df. window_mains self mains = Inr df \<and> length df = length (concat mains)
           \<and> (\<forall>w \<in> set df. int (length w) = sequence_length self)"
proof -
  let ?n = "sequence_length self"
  have k: "0 \<le> ?n div 2" using assms by simp
  then obtain p where p: "np_pad (concat mains) (?n div 2) = Inr p"
    by (simp add: np_pad_def)
  have two: "2 * (?n div 2) = ?n - 1" using assms by presburger
  have lp: "int (length p) = int (length (concat mains)) + ?n - 1"
    using np_pad_length[OF p] k two by linarith
  have df: "window_mains self mains =
      Inr (map (map (\<lambda>x. fl_div (fl_sub x (mains_mean self)) (mains_std self)))
             (sliding_windows p ?n))"
    using p by (simp add: window_mains_def Let_def)
  have len: "length (sliding_windows p ?n) = length (concat mains)"
    using lp by (simp add: length_sliding_windows)
  have wid: "\<forall>w \<in> set (sliding_windows p ?n). int (length w) = ?n"
    using sliding_windows_width assms(2) by (metis less_imp_le)
  show ?thesis using df len wid by auto
qed

lemma window_all_count:
  assumes "odd (sequence_length self)" and "0 < sequence_length self"
  shows "\<exists>dfs. window_all self mains_lst = Inr dfs
           \<and> map length dfs = map (\<lambda>mains. length (concat mains)) mains_lst
           \<and> (\<forall>df \<in> set dfs. \<forall>w \<in> set df. int (length w) = sequence_length self)"
proof (induction mains_lst)
  case Nil
  show ?case by simp
next
  case (Cons mains rest)
  from window_mains_count[OF assms, of mains] obtain df
    where df: "window_mains self mains = Inr df" "length df = length (concat mains)"
      "\<forall>w \<in> set df. int (length w) = sequence_length self"
    by blast
  from Cons.IH obtain dfs
    where dfs: "window_all self rest = Inr dfs"
      "map length dfs = map (\<lambda>mains. length (concat mains)) rest"
      "\<forall>df \<in> set dfs. \<forall>w \<in> set df. int (length w) = sequence_length self"
    by blast
  have "window_all self (mains # rest) = Inr (df # dfs)"
    using df(1) dfs(1) by simp
  with df dfs show ?case by simp
qed

text \<open>
  Claim C1. For an odd (positive) window length \<open>n\<close>, \<^verbatim>\<open>call_preprocessing\<close> turns
  every mains chunk whose flattened series has length \<open>L\<close> into exactly \<open>L\<close> windows,
  each of length \<open>n\<close>, in the inference branch and in the training branch alike
  (the training branch returns them whenever the appliances pass their own
  normalisation).
\<close>

theorem call_preprocessing_window_count:
  assumes "odd (sequence_length self)" and "0 < sequence_length self"
  shows "\<exists>dfs. map length dfs = map (\<lambda>mains. length (concat mains)) mains_lst
           \<and> (\<forall>df \<in> set dfs. \<forall>w \<in> set df. int (length w) = sequence_length self)
           \<and> call_preprocessing self mains_lst submeters_lst ''test'' = Inr (TestData dfs)
           \<and> (\<forall>apps. normalize_appliances self submeters_lst = Inr apps \<longrightarrow>
                 call_preprocessing self mains_lst submeters_lst ''train''
                   = Inr (TrainData dfs apps))"
proof -
  from window_all_count[OF assms, of mains_lst] obtain dfs
    where dfs: "window_all self mains_lst = Inr dfs"
      "map length dfs = map (\<lambda>mains. length (concat mains)) mains_lst"
      "\<forall>df \<in> set dfs. \<forall>w \<in> set df. int (length w) = sequence_length self"
    by blast
  have "call_preprocessing self mains_lst submeters_lst ''test'' = Inr (TestData dfs)"
    using dfs(1) by (simp add: call_preprocessing_def)
  moreover have "\<forall>apps. normalize_appliances self submeters_lst = Inr apps \<longrightarrow>
      call_preprocessing self mains_lst submeters_lst ''train'' = Inr (TrainData dfs apps)"
    using dfs(1) by (simp add: call_preprocessing_def)
  ultimately show ?thesis using dfs(2,3) by blast
qed

theorem call_preprocessing_window_count_witness:
  "odd (sequence_length rnn_seq3) \<and> 0 < sequence_length rnn_seq3
   \<and> (\<exists>dfs. map length dfs = [7]
         \<and> call_preprocessing rnn_seq3 [spike_chunk] [] ''test'' = Inr (TestData dfs)
         \<and> call_preprocessing rnn_seq3 [spike_chunk] [] ''train'' = Inr (TrainData dfs []))"
proof -
  have h: "odd (sequence_length rnn_seq3)" "0 < sequence_length rnn_seq3"
    by (simp_all add: rnn_seq3_def)
  have n: "normalize_appliances rnn_seq3 [] = Inr []" by simp
  have l: "map (\<lambda>mains. length (concat mains)) [spike_chunk] = [7]"
    by (simp add: spike_chunk_def)
  from call_preprocessing_window_count[OF h, of "[spike_chunk]" "[]"] n l h
  show ?thesis by metis
qed

text \<open>
  Claim C9, as amended. For the mains chunk \<^verbatim>\<open>[0,0,0,5,0,0,0]\<close> with
  \<^verbatim>\<open>sequence_length=3\<close>, \<^verbatim>\<open>mains_mean=0\<close> and \<^verbatim>\<open>mains_std=1\<close> the padding and slicing
  yield the 7 windows \<^verbatim>\<open>[0,0,0],[0,0,0],[0,0,5],[0,5,0],[5,0,0],[0,0,0],[0,0,0]\<close>:
  the first and the last window hold the padding zero and have length 3 like the
  others.
\<close>

theorem spike_chunk_windows:
  "call_preprocessing rnn_seq3 [spike_chunk] [] ''test'' =
     Inr (TestData [[[Fin 0, Fin 0, Fin 0], [Fin 0, Fin 0, Fin 0], [Fin 0, Fin 0, Fin 5],
                     [Fin 0, Fin 5, Fin 0], [Fin 5, Fin 0, Fin 0], [Fin 0, Fin 0, Fin 0],
                     [Fin 0, Fin 0, Fin 0]]])"
  by (simp add: call_preprocessing_def window_mains_def rnn_seq3_def spike_chunk_def
      np_pad_def sliding_windows_def fl_sub_def upt_rec numeral_eq_Suc)

text \<open>The windows the claim lists, with a first and a last window of length 2, are
  not what the code returns.\<close>

theorem spike_chunk_windows_counterexample:
  "call_preprocessing rnn_seq3 [spike_chunk] [] ''test'' \<noteq>
     Inr (TestData [[[Fin 0, Fin 0], [Fin 0, Fin 0, Fin 0], [Fin 0, Fin 0, Fin 5],
                     [Fin 0, Fin 5, Fin 0], [Fin 5, Fin 0, Fin 0], [Fin 0, Fin 0, Fin 0],
                     [Fin 0, Fin 0]]])"
  by (simp add: call_preprocessing_def window_mains_def rnn_seq3_def spike_chunk_def
      np_pad_def sliding_windows_def fl_sub_def upt_rec numeral_eq_Suc)

subsection \<open>Construction\<close>

text \<open>
  Claim C7. The constructor raises \<^verbatim>\<open>SequenceLengthError\<close> for every even
  \<^verbatim>\<open>sequence_length\<close> and returns an estimator with that window length for every odd
  one. The constructor takes the parameters alone: it reads no data.
\<close>

theorem RNN_init_sequence_length:
  "(even n \<longrightarrow> RNN_init (ps\<lparr>p_sequence_length := Some n\<rparr>) = Inl SequenceLengthError)
   \<and> (odd n \<longrightarrow> (\<exists>self. RNN_init (ps\<lparr>p_sequence_length := Some n\<rparr>) = Inr self
                    \<and> sequence_length self = n \<and> models self = []))"
  by (auto simp: RNN_init_def dict_get_def Let_def)

theorem RNN_init_sequence_length_witness:
  "even (4::int) \<and> RNN_init (no_params\<lparr>p_sequence_length := Some 4\<rparr>) = Inl SequenceLengthError
   \<and> odd (3::int) \<and> (\<exists>self. RNN_init (no_params\<lparr>p_sequence_length := Some 3\<rparr>) = Inr self
                    \<and> sequence_length self = 3 \<and> models self = [])"
  using RNN_init_sequence_length[of 4 no_params] RNN_init_sequence_length[of 3 no_params]
  by simp

subsection \<open>The appliance parameter store\<close>

lemma set_appliance_params_lookup:
  assumes "\<forall>(n, dfs) \<in> set train_appliances. dfs \<noteq> []"
  shows "\<exists>self'. set_appliance_params self train_appliances = (None, self')
     \<and> (\<forall>name. dict_lookup (appliance_params self') name =
          (case map_of (rev train_appliances) name of
             Some dfs \<Rightarrow> Some (appliance_stats (concat dfs))
           | None \<Rightarrow> dict_lookup (appliance_params self) name))"
  using assms
proof (induction train_appliances arbitrary: self)
  case Nil
  show ?case by simp
next
  case (Cons a rest)
  obtain n d where a: "a = (n, d)" by (cases a)
  let ?self1 = "self\<lparr>appliance_params :=
      AList.update n (appliance_stats (concat d)) (appliance_params self)\<rparr>"
  from Cons.prems a have d: "d \<noteq> []" and r: "\<forall>(n, dfs) \<in> set rest. dfs \<noteq> []" by auto
  from Cons.IH[OF r, of ?self1] obtain self' where
    s: "set_appliance_params ?self1 rest = (None, self')" and
    l: "\<forall>name. dict_lookup (appliance_params self') name =
          (case map_of (rev rest) name of
             Some dfs \<Rightarrow> Some (appliance_stats (concat dfs))
           | None \<Rightarrow> dict_lookup (appliance_params ?self1) name)" by blast
  have 1: "set_appliance_params self (a # rest) = (None, self')"
    using a d s by (simp add: pd_concat_def)
  have 2: "dict_lookup (appliance_params self') name =
          (case map_of (rev (a # rest)) name of
             Some dfs \<Rightarrow> Some (appliance_stats (concat dfs))
           | None \<Rightarrow> dict_lookup (appliance_params self) name)" for name
    using l a by (auto simp: dict_lookup_def update_conv' map_add_def split: option.splits)
  from 1 2 show ?case by blast
qed

text \<open>
  Claim C5. \<^verbatim>\<open>set_appliance_params\<close>, run on appliances of distinct names that each
  have at least one chunk, stores for every appliance whose readings have a computed
  standard deviation strictly below 1 the mean of the readings and the standard
  deviation 100, never the computed one. The witness is the scenario of the readings
  \<^verbatim>\<open>[10,10,10]\<close>: stored statistics \<^verbatim>\<open>{mean: 10, std: 100}\<close>.
\<close>

theorem set_appliance_params_std_floor:
  assumes "(app_name, df_list) \<in> set train_appliances"
    and "distinct (map fst train_appliances)"
    and "\<forall>(n, dfs) \<in> set train_appliances. dfs \<noteq> []"
    and "fl_less (np_std (concat (concat df_list))) (Fin 1)"
  shows "\<exists>self'. set_appliance_params self train_appliances = (None, self')
     \<and> dict_lookup (appliance_params self') app_name
          = Some \<lparr>mean = np_mean (concat (concat df_list)), std = Fin 100\<rparr>"
proof -
  from set_appliance_params_lookup[OF assms(3), of self] obtain self' where
    s: "set_appliance_params self train_appliances = (None, self')" and
    l: "\<forall>name. dict_lookup (appliance_params self') name =
          (case map_of (rev train_appliances) name of
             Some dfs \<Rightarrow> Some (appliance_stats (concat dfs))
           | None \<Rightarrow> dict_lookup (appliance_params self) name)" by blast
  have "map_of (rev train_appliances) app_name = Some df_list"
    using assms(1,2) by (simp add: rev_map[symmetric])
  with l have "dict_lookup (appliance_params self') app_name
      = Some (appliance_stats (concat df_list))"
    by simp
  with s assms(4) show ?thesis by (simp add: appliance_stats_def Let_def)
qed

theorem set_appliance_params_std_floor_witness:
  "np_std (concat (concat constant_chunks)) = Fin 0
   \<and> fl_less (np_std (concat (concat constant_chunks))) (Fin 1)
   \<and> (\<exists>self'. set_appliance_params rnn_seq3 [(''fridge'', constant_chunks)] = (None, self')
        \<and> dict_lookup (appliance_params self') ''fridge''
             = Some \<lparr>mean = Fin 10, std = Fin 100\<rparr>)"
proof -
  have m: "np_mean (concat (concat constant_chunks)) = Fin 10"
    by (simp add: constant_chunks_def np_mean_def np_sum_def)
  have sd: "np_std (concat (concat constant_chunks)) = Fin 0"
    by (simp add: constant_chunks_def np_mean_def np_std_def np_sum_def fl_sub_def Let_def)
  have lt: "fl_less (np_std (concat (concat constant_chunks))) (Fin 1)"
    by (simp add: sd)
  have ne: "\<forall>(n, dfs) \<in> set [(''fridge'', constant_chunks)]. dfs \<noteq> []"
    by (simp add: constant_chunks_def)
  from set_appliance_params_std_floor[of "''fridge''" constant_chunks
      "[(''fridge'', constant_chunks)]" rnn_seq3, OF _ _ ne lt] m sd lt
  show ?thesis by simp
qed

subsection \<open>Reshaping and batching\<close>

lemma regroup_concat:
  assumes "0 < k" and "\<forall>w \<in> set ws. length w = k"
  shows "map (\<lambda>i. take k (drop (i * k) (concat ws))) [0 ..< length ws] = ws"
  using assms(2)
proof (induction ws)
  case Nil
  show ?case by simp
next
  case (Cons w ws)
  then have w: "length w = k" and ws: "\<forall>w \<in> set ws. length w = k" by auto
  have "map (\<lambda>i. take k (drop (i * k) (concat (w # ws)))) [0 ..< length (w # ws)]
      = take k (w @ concat ws) # map (\<lambda>i. take k (drop (Suc i * k) (w @ concat ws))) [0 ..< length ws]"
    by (simp add: upt_conv_Cons map_Suc_upt[symmetric] del: upt_Suc)
  also have "\<dots> = w # map (\<lambda>i. take k (drop (i * k) (concat ws))) [0 ..< length ws]"
    using w by simp
  finally show ?case using Cons.IH[OF ws] by simp
qed

lemma length_concat_uniform:
  "\<forall>w \<in> set ws. length w = k \<Longrightarrow> length (concat ws) = length ws * k"
  by (induction ws) auto

lemma reshape_windows_concat:
  assumes "0 < n" and "\<forall>w \<in> set ws. int (length w) = n"
  shows "reshape_windows (concat ws) n = Inr ws"
proof -
  have u: "\<forall>w \<in> set ws. length w = nat n" using assms(2) by auto
  have l: "length (concat ws) = length ws * nat n" by (rule length_concat_uniform[OF u])
  have k: "0 < nat n" using assms(1) by simp
  have m: "int (length (concat ws)) mod n = 0"
    using l assms(1) by simp
  have d: "length (concat ws) div nat n = length ws" using l k by simp
  show ?thesis using assms(1) m d regroup_concat[OF k u]
    by (simp add: reshape_windows_def)
qed

lemma batches_of_single:
  assumes "xs \<noteq> []" and "length xs \<le> k"
  shows "batches_of k xs = [xs]"
proof -
  have pos: "0 < length xs" using assms(1) by simp
  have lo: "k * 1 \<le> length xs + k - 1" using pos by linarith
  have "length xs + k - 1 < k + k" using pos assms(2) by linarith
  then have hi: "length xs + k - 1 < k * Suc 1" by simp
  have "(length xs + k - 1) div k = 1" by (rule div_nat_eqI[OF lo hi])
  then show ?thesis using assms(2) by (simp add: batches_of_def)
qed

lemma batches_of_nonempty:
  assumes "xs \<noteq> []" and "0 < k"
  shows "batches_of k xs \<noteq> []"
proof -
  have "k \<le> length xs + k - 1" using assms(1) by (cases xs) auto
  then have "0 < (length xs + k - 1) div k" using assms(2) by (simp add: div_greater_zero_iff)
  then show ?thesis by (simp add: batches_of_def)
qed

subsection \<open>Inference on the spike chunk\<close>

lemma window_all_spike:
  "sequence_length self = 3 \<Longrightarrow> mains_mean self = Fin 0 \<Longrightarrow> mains_std self = Fin 1 \<Longrightarrow>
   window_all self [spike_chunk] = Inr [spike_windows]"
  by (simp add: window_mains_def spike_chunk_def spike_windows_def
      np_pad_def sliding_windows_def fl_sub_def upt_rec numeral_eq_Suc)

lemma reshape_spike: "reshape_windows (concat spike_windows) 3 = Inr spike_windows"
  by (rule reshape_windows_concat) (simp_all add: spike_windows_def)

lemma batches_spike: "batches_of 512 spike_windows = [spike_windows]"
  by (rule batches_of_single) (simp_all add: spike_windows_def)

lemma predict_fridge:
  "predict_appliances toy_backend fridge_world spike_windows [(''fridge'', 0)] []
     = Inr [(''fridge'', [Fin 10, Fin 10, Fin 0, Fin 0, Fin 0, Fin 10, Fin 10])]"
  by (simp add: fridge_world_def fridge_rnn_def DataLoader_def batches_spike
      np_concatenate_def dict_lookup_def)
     (simp add: spike_windows_def toy_backend_def np_sum_def)

lemma disaggregate_spike:
  "fst (disaggregate_chunk toy_backend fridge_world [spike_chunk] None True)
     = Inr [[(''fridge'', [Fin 10, Fin 10, Fin 0, Fin 0, Fin 0, Fin 10, Fin 10])]]"
proof -
  have w: "window_all (obj fridge_world) [spike_chunk] = Inr [spike_windows]"
    by (rule window_all_spike) (simp_all add: fridge_world_def fridge_rnn_def)
  have n: "sequence_length (obj fridge_world) = 3" "models (obj fridge_world) = [(''fridge'', 0)]"
    by (simp_all add: fridge_world_def fridge_rnn_def)
  show ?thesis
    by (simp add: disaggregate_chunk_def call_preprocessing_def w n reshape_spike predict_fridge
        del: window_all.simps predict_appliances.simps)
qed

subsection \<open>Non-negative output\<close>

lemma set_update_cases:
  "(a, s) \<in> set (AList.update k v al) \<Longrightarrow> (a, s) = (k, v) \<or> (a, s) \<in> set al"
  by (induction al) (auto split: if_splits)

lemma fl_less_imp_less_eq: "fl_less a b \<Longrightarrow> fl_less_eq a b"
  by (cases a; cases b) auto

lemma predict_appliances_nonneg:
  assumes "predict_appliances b W test_main reg d = Inr t"
    and "\<forall>(a, s) \<in> set d. \<forall>v \<in> set s. fl_less_eq (Fin 0) v"
  shows "\<forall>(a, s) \<in> set t. \<forall>v \<in> set s. fl_less_eq (Fin 0) v"
  using assms
proof (induction reg arbitrary: d)
  case Nil
  then show ?case by simp
next
  case (Cons p reg)
  obtain appliance model where p: "p = (appliance, model)" by (cases p)
  from Cons.prems(1) p obtain test_loader prediction st where
    dl: "DataLoader test_main (batch_size (obj W)) False = Inr test_loader" and
    st: "dict_lookup (appliance_params (obj W)) appliance = Some st" and
    rec: "predict_appliances b W test_main reg
            (AList.update appliance
               (map (\<lambda>v. if fl_less (Fin 0) v then v else Fin 0)
                  (map (\<lambda>p. fl_add (mean st) (fl_mul p (std st))) prediction)) d) = Inr t"
    by (auto simp: Let_def split: sum.splits option.splits)
  let ?vp = "map (\<lambda>v. if fl_less (Fin 0) v then v else Fin 0)
                  (map (\<lambda>p. fl_add (mean st) (fl_mul p (std st))) prediction)"
  have vp: "\<forall>v \<in> set ?vp. fl_less_eq (Fin 0) v"
    by (auto simp: fl_less_imp_less_eq)
  have "\<forall>(a, s) \<in> set (AList.update appliance ?vp d). \<forall>v \<in> set s. fl_less_eq (Fin 0) v"
  proof (clarify)
    fix a s v assume as: "(a, s) \<in> set (AList.update appliance ?vp d)" and v: "v \<in> set s"
    from set_update_cases[OF as] show "fl_less_eq (Fin 0) v"
    proof
      assume "(a, s) = (appliance, ?vp)"
      with v vp show ?thesis by blast
    next
      assume "(a, s) \<in> set d"
      with Cons.prems(2) v show ?thesis by auto
    qed
  qed
  from Cons.IH[OF rec this] show ?case .
qed

lemma disaggregate_chunks_nonneg:
  assumes "disaggregate_chunks b W chunks = Inr tables"
  shows "\<forall>t \<in> set tables. \<forall>(a, s) \<in> set t. \<forall>v \<in> set s. fl_less_eq (Fin 0) v"
  using assms
proof (induction chunks arbitrary: tables)
  case Nil
  then show ?case by simp
next
  case (Cons c chunks)
  from Cons.prems obtain windows results rest where
    r: "predict_appliances b W windows (models (obj W)) [] = Inr results" and
    c: "disaggregate_chunks b W chunks = Inr rest" and
    t: "tables = results # rest"
    by (auto split: sum.splits)
  have "\<forall>(a, s) \<in> set results. \<forall>v \<in> set s. fl_less_eq (Fin 0) v"
    using predict_appliances_nonneg[OF r] by simp
  with Cons.IH[OF c] t show ?case by simp
qed

text \<open>
  Claim C6. Whenever \<^verbatim>\<open>disaggregate_chunk\<close> returns, every value of every appliance
  column of every returned table is at least zero (and so is not NaN): a denormalised
  estimate that is not greater than zero is replaced by zero. In the witness the
  network of weight \<open>-2\<close> gives the estimate \<open>10 + (-10) * 100\<close> for the three
  windows that hold the spike, and the table holds 0 there.
\<close>

theorem disaggregate_chunk_nonneg:
  assumes "fst (disaggregate_chunk b W test_main_list model do_preprocessing) = Inr tables"
    and "t \<in> set tables" and "(appliance, series) \<in> set t" and "v \<in> set series"
  shows "fl_less_eq (Fin 0) v"
proof -
  from assms(1) obtain W1 l where "disaggregate_chunks b W1 l = Inr tables"
    by (auto simp: disaggregate_chunk_def Let_def split: sum.splits preprocessed.splits if_splits)
  from disaggregate_chunks_nonneg[OF this] assms(2,3,4) show ?thesis by blast
qed

theorem disaggregate_chunk_nonneg_witness:
  "fst (disaggregate_chunk toy_backend fridge_world [spike_chunk] None True)
     = Inr [[(''fridge'', [Fin 10, Fin 10, Fin 0, Fin 0, Fin 0, Fin 10, Fin 10])]]
   \<and> fl_less_eq (Fin 0) (Fin 0) \<and> fl_less_eq (Fin 0) (Fin 10)"
proof -
  note e = disaggregate_spike
  let ?series = "[Fin 10, Fin 10, Fin 0, Fin 0, Fin 0, Fin 10, Fin 10]"
  have "fl_less_eq (Fin 0) (Fin 0)"
    using disaggregate_chunk_nonneg[OF e, of "[(''fridge'', ?series)]" "''fridge''" ?series "Fin 0"]
    by simp
  moreover have "fl_less_eq (Fin 0) (Fin 10)"
    using disaggregate_chunk_nonneg[OF e, of "[(''fridge'', ?series)]" "''fridge''" ?series "Fin 10"]
    by simp
  ultimately show ?thesis using e by simp
qed

subsection \<open>Inference for an appliance without statistics\<close>

lemma predict_appliances_missing:
  assumes "\<forall>(a, r') \<in> set known. dict_lookup (appliance_params (obj W)) a \<noteq> None"
    and "dict_lookup (appliance_params (obj W)) appliance = None"
  shows "(\<exists>e. predict_appliances b W test_main (known @ (appliance, r) # rest) d = Inl e)
     \<and> (0 < batch_size (obj W) \<and> test_main \<noteq> [] \<longrightarrow>
          predict_appliances b W test_main (known @ (appliance, r) # rest) d
            = Inl (KeyError appliance))"
  using assms(1)
proof (induction known arbitrary: d)
  case Nil
  show ?case
    using assms(2) batches_of_nonempty[of test_main "nat (batch_size (obj W))"]
    by (auto simp: DataLoader_def np_concatenate_def Let_def split: sum.splits)
next
  case (Cons p known)
  obtain a r' where p: "p = (a, r')" by (cases p)
  from Cons.prems p obtain st where st: "dict_lookup (appliance_params (obj W)) a = Some st"
    and k: "\<forall>(a, r') \<in> set known. dict_lookup (appliance_params (obj W)) a \<noteq> None"
    by auto
  note IH = Cons.IH[OF k]
  show ?case
  proof (cases "batch_size (obj W) \<le> 0")
    case True
    then show ?thesis using p by (simp add: DataLoader_def)
  next
    case False
    show ?thesis
    proof (cases "test_main = []")
      case True
      then show ?thesis using p False
        by (simp add: DataLoader_def np_concatenate_def batches_of_def)
    next
      case ne: False
      have bn: "batches_of (nat (batch_size (obj W))) test_main \<noteq> []"
        using batches_of_nonempty[OF ne] False by simp
      show ?thesis using p False bn st IH
        by (simp add: DataLoader_def np_concatenate_def Let_def)
    qed
  qed
qed

lemma disaggregate_chunks_missing:
  assumes "\<forall>(a, r') \<in> set known. dict_lookup (appliance_params (obj W)) a \<noteq> None"
    and "dict_lookup (appliance_params (obj W)) appliance = None"
    and "models (obj W) = known @ (appliance, r) # rest"
    and "chunks \<noteq> []"
  shows "(\<exists>e. disaggregate_chunks b W chunks = Inl e)
     \<and> (\<forall>windows. reshape_windows (concat (hd chunks)) (sequence_length (obj W)) = Inr windows
            \<and> windows \<noteq> [] \<and> 0 < batch_size (obj W) \<longrightarrow>
          disaggregate_chunks b W chunks = Inl (KeyError appliance))"
proof -
  from assms(4) obtain c cs where c: "chunks = c # cs" by (cases chunks) auto
  show ?thesis
  proof (cases "reshape_windows (concat c) (sequence_length (obj W))")
    case (Inl e)
    then show ?thesis using c by simp
  next
    case (Inr windows)
    from predict_appliances_missing[OF assms(1,2), of b windows r rest "[]"]
    show ?thesis using c Inr assms(3) by auto
  qed
qed

lemma window_all_length:
  "window_all self mains_lst = Inr dfs \<Longrightarrow> length dfs = length mains_lst"
  by (induction mains_lst arbitrary: dfs) (auto split: sum.splits)

text \<open>
  Claim C10, as amended. Let the registry used by the call (the one given as
  \<open>model\<close>, else \<^verbatim>\<open>self.models\<close>) hold an appliance without an entry in
  \<^verbatim>\<open>appliance_params\<close>, \<open>appliance\<close> being the first such in the order of the
  registry. Then a call with at least one chunk raises and returns no table; no
  statistics are substituted. With preprocessing on, an odd positive
  \<^verbatim>\<open>sequence_length\<close>, a positive \<^verbatim>\<open>batch_size\<close> and a first chunk that is not empty,
  the error is the \<^verbatim>\<open>KeyError\<close> of \<open>appliance\<close>, raised at the denormalisation.
\<close>

theorem disaggregate_chunk_unknown_appliance:
  assumes "(case model of None \<Rightarrow> models (obj W) | Some m \<Rightarrow> m) = known @ (appliance, r) # rest"
    and "\<forall>(a, r') \<in> set known. dict_lookup (appliance_params (obj W)) a \<noteq> None"
    and "dict_lookup (appliance_params (obj W)) appliance = None"
    and "test_main_list \<noteq> []"
  shows "(\<exists>e. fst (disaggregate_chunk b W test_main_list model do_preprocessing) = Inl e)
     \<and> (do_preprocessing \<and> odd (sequence_length (obj W)) \<and> 0 < sequence_length (obj W)
          \<and> 0 < batch_size (obj W) \<and> concat (hd test_main_list) \<noteq> [] \<longrightarrow>
        fst (disaggregate_chunk b W test_main_list model do_preprocessing)
          = Inl (KeyError appliance))"
proof -
  define W1 where "W1 = (case model of None \<Rightarrow> W | Some m \<Rightarrow> W\<lparr>obj := (obj W)\<lparr>models := m\<rparr>\<rparr>)"
  have m: "models (obj W1) = known @ (appliance, r) # rest"
    using assms(1) by (simp add: W1_def split: option.splits)
  have ap: "appliance_params (obj W1) = appliance_params (obj W)"
    and sl: "sequence_length (obj W1) = sequence_length (obj W)"
    and bs: "batch_size (obj W1) = batch_size (obj W)"
    by (simp_all add: W1_def split: option.splits)
  have k1: "\<forall>(a, r') \<in> set known. dict_lookup (appliance_params (obj W1)) a \<noteq> None"
    using assms(2) ap by simp
  have a1: "dict_lookup (appliance_params (obj W1)) appliance = None"
    using assms(3) ap by simp
  note dm = disaggregate_chunks_missing[OF k1 a1 m]
  have unf: "fst (disaggregate_chunk b W test_main_list model do_preprocessing) =
      (if do_preprocessing then
         (case window_all (obj W1) test_main_list of
            Inl e \<Rightarrow> Inl e | Inr dfs \<Rightarrow> disaggregate_chunks b W1 dfs)
       else disaggregate_chunks b W1 test_main_list)"
    by (simp add: disaggregate_chunk_def call_preprocessing_def W1_def[symmetric] Let_def
        split: sum.splits)
  have 1: "\<exists>e. fst (disaggregate_chunk b W test_main_list model do_preprocessing) = Inl e"
  proof (cases do_preprocessing)
    case False
    then show ?thesis using unf dm[OF assms(4), of b] by simp
  next
    case True
    show ?thesis
    proof (cases "window_all (obj W1) test_main_list")
      case (Inl e)
      then show ?thesis using unf True by simp
    next
      case (Inr dfs)
      then have "dfs \<noteq> []" using window_all_length[OF Inr] assms(4) by auto
      from dm[OF this, of b] show ?thesis using unf True Inr by simp
    qed
  qed
  have 2: "fst (disaggregate_chunk b W test_main_list model do_preprocessing)
          = Inl (KeyError appliance)"
    if h: "do_preprocessing" "odd (sequence_length (obj W))" "0 < sequence_length (obj W)"
      "0 < batch_size (obj W)" "concat (hd test_main_list) \<noteq> []"
  proof -
    from window_all_count[of "obj W1" test_main_list] h(2,3) sl obtain dfs where
      dfs: "window_all (obj W1) test_main_list = Inr dfs"
        "map length dfs = map (\<lambda>mains. length (concat mains)) test_main_list"
        "\<forall>df \<in> set dfs. \<forall>w \<in> set df. int (length w) = sequence_length (obj W1)"
      by auto
    from assms(4) obtain c cs where c: "test_main_list = c # cs" by (cases test_main_list) auto
    with dfs(2) obtain df dfs' where d: "dfs = df # dfs'" "length df = length (concat c)"
      by (cases dfs) auto
    have ne: "dfs \<noteq> []" "hd dfs \<noteq> []" using d h(5) c by auto
    have "reshape_windows (concat (hd dfs)) (sequence_length (obj W1)) = Inr (hd dfs)"
      using dfs(3) d h(3) sl by (intro reshape_windows_concat) auto
    with dm[OF ne(1), of b] ne(2) h(4) bs
    have "disaggregate_chunks b W1 dfs = Inl (KeyError appliance)" by simp
    then show ?thesis using unf h(1) dfs(1) by simp
  qed
  from 1 2 show ?thesis by blast
qed

theorem disaggregate_chunk_unknown_appliance_witness:
  "fst (disaggregate_chunk toy_backend fridge_world [spike_chunk]
          (Some [(''fridge'', 0), (''kettle'', 1)]) True) = Inl (KeyError ''kettle'')"
proof -
  have 1: "(case Some [(''fridge'', 0), (''kettle'', 1)] of
              None \<Rightarrow> models (obj fridge_world) | Some m \<Rightarrow> m)
           = [(''fridge'', 0)] @ (''kettle'', 1) # []"
    by simp
  have 2: "\<forall>(a, r') \<in> set [(''fridge'', 0::nat)].
             dict_lookup (appliance_params (obj fridge_world)) a \<noteq> None"
    by (simp add: fridge_world_def fridge_rnn_def dict_lookup_def)
  have 3: "dict_lookup (appliance_params (obj fridge_world)) ''kettle'' = None"
    by (simp add: fridge_world_def fridge_rnn_def dict_lookup_def)
  have 4: "[spike_chunk] \<noteq> []" by simp
  have 5: "odd (sequence_length (obj fridge_world))" "0 < sequence_length (obj fridge_world)"
    "0 < batch_size (obj fridge_world)" "concat (hd [spike_chunk]) \<noteq> []"
    by (simp_all add: fridge_world_def fridge_rnn_def spike_chunk_def)
  from disaggregate_chunk_unknown_appliance[OF 1 2 3 4, of toy_backend True] 5
  show ?thesis by simp
qed

text \<open>
  The claim as stated fails. With the registry \<open>[(''kettle'', 0)]\<close> given as
  \<open>model\<close> and no statistics for the kettle, a call with no chunk returns the empty
  list of tables, and a call whose only chunk is empty raises the \<^verbatim>\<open>ValueError\<close> of
  \<^verbatim>\<open>np.concatenate\<close> before the denormalisation is reached.
\<close>

theorem disaggregate_chunk_unknown_appliance_counterexample:
  "dict_lookup (appliance_params (obj fridge_world)) ''kettle'' = None
   \<and> fst (disaggregate_chunk toy_backend fridge_world [] (Some [(''kettle'', 0)]) True) = Inr []
   \<and> fst (disaggregate_chunk toy_backend fridge_world [[]] (Some [(''kettle'', 0)]) True)
       = Inl ValueError"
  by (simp add: disaggregate_chunk_def call_preprocessing_def fridge_world_def fridge_rnn_def
      dict_lookup_def window_mains_def np_pad_def sliding_windows_def reshape_windows_def
      DataLoader_def batches_of_def np_concatenate_def)

subsection \<open>The best-so-far state of \<^verbatim>\<open>train_model\<close>\<close>

text \<open>The state dictionary kept as the best state refers to the tensors of the
  trained network itself, so that loading it at the end changes nothing: the call
  leaves the weights of the last epoch, whatever the validation losses were.\<close>

lemma load_state_dict_self: "load_state_dict W model (TensorsOf model) = W"
  by (simp add: load_state_dict_def)

lemma run_epoch_best_state:
  assumes "run_epoch b model tl' vl name ep st = (err, st')"
    and "best_model_state st = None \<or> best_model_state st = Some (TensorsOf model)"
  shows "best_model_state st' = None \<or> best_model_state st' = Some (TensorsOf model)"
  using assms
  by (auto simp: run_epoch_def Let_def dict_copy_def state_dict_of_def
      split: prod.splits if_splits)

lemma run_epochs_best_state:
  assumes "run_epochs b model tl' vl name ep k st = (err, st')"
    and "best_model_state st = None \<or> best_model_state st = Some (TensorsOf model)"
  shows "best_model_state st' = None \<or> best_model_state st' = Some (TensorsOf model)"
  using assms
proof (induction k arbitrary: st)
  case 0
  then show ?case by simp
next
  case (Suc k)
  obtain e1 st1 where r: "run_epoch b model tl' vl name ep st = (e1, st1)" by (cases "run_epoch b model tl' vl name ep st")
  note b1 = run_epoch_best_state[OF r Suc.prems(2)]
  show ?case
  proof (cases e1)
    case None
    with Suc.prems(1) r have "run_epochs b model tl' vl name ep k st1 = (err, st')" by simp
    from Suc.IH[OF this b1] show ?thesis .
  next
    case (Some e)
    with Suc.prems(1) r have "st' = st1" by simp
    with b1 show ?thesis by simp
  qed
qed

lemma train_model_live_weights:
  "train_model b W model train_loader val_loader appliance_name current_epoch =
     (case run_epochs b model train_loader val_loader appliance_name current_epoch
             (nat (n_epochs (obj W)))
             \<lparr>ts_world = W, ts_optimizer = adam b (networks W model),
              best_val_loss = PInf, best_model_state = None\<rparr> of
        (err, st) \<Rightarrow> (err, ts_world st))"
proof -
  let ?st0 = "\<lparr>ts_world = W, ts_optimizer = adam b (networks W model),
              best_val_loss = PInf, best_model_state = None\<rparr>"
  obtain err st where r: "run_epochs b model train_loader val_loader appliance_name current_epoch
             (nat (n_epochs (obj W))) ?st0 = (err, st)"
    by (cases "run_epochs b model train_loader val_loader appliance_name current_epoch
             (nat (n_epochs (obj W))) ?st0")
  have "best_model_state st = None \<or> best_model_state st = Some (TensorsOf model)"
    by (rule run_epochs_best_state[OF r]) simp
  then show ?thesis using r
    by (auto simp: train_model_def Let_def load_state_dict_self split: option.splits)
qed

lemma batches_toy: "batches_of 512 toy_samples = [toy_samples]"
  by (simp add: batches_of_def toy_samples_def)

lemma loader_len_toy: "loader_len toy_train_loader = 1" "loader_len toy_val_loader = 1"
  by (simp_all add: loader_len_def toy_train_loader_def toy_val_loader_def toy_samples_def)

lemma batch_loss_toy:
  "batch_loss toy_backend w toy_samples = Fin ((real_of_int w + 1) * (real_of_int w + 1))"
  by (simp add: batch_loss_def toy_backend_def toy_samples_def np_mean_def np_sum_def fl_sub_def)

lemma path_toy: "checkpoint_path fridge_rnn ''fridge'' 0 = ''rnn-temp-weights-fridge-epoch0.pth''"
  by (simp add: checkpoint_path_def fridge_rnn_def str_int_def)

lemma run_epoch_toy:
  assumes "obj (ts_world st) = fridge_rnn"
  shows "run_epoch toy_backend 0 toy_train_loader toy_val_loader ''fridge'' 0 st =
    (let W = ts_world st; w = networks W 0 + 1;
         W2 = W\<lparr>networks := (networks W)(0 := w)\<rparr>;
         val_loss = Fin ((real_of_int w + 1) * (real_of_int w + 1))
     in if fl_less val_loss (best_val_loss st) then
          (None, st\<lparr>ts_world := W2\<lparr>disk := (disk W2)(''rnn-temp-weights-fridge-epoch0.pth'' := Some w)\<rparr>,
                     best_val_loss := val_loss, best_model_state := Some (TensorsOf 0)\<rparr>)
        else (None, st\<lparr>ts_world := W2\<rparr>))"
proof -
  have tb: "loader_batches toy_backend toy_train_loader g = ([toy_samples], g)" for g
    by (simp add: loader_batches_def toy_train_loader_def toy_backend_def batches_toy map_nth)
  have vb: "loader_batches toy_backend toy_val_loader g = ([toy_samples], g)" for g
    by (simp add: loader_batches_def toy_val_loader_def batches_toy)
  have tr: "train_batch toy_backend w opt g batch = (w + 1, opt, g, Fin 0)" for w opt g batch
    by (simp add: toy_backend_def)
  show ?thesis
    by (simp add: run_epoch_def tb vb tr Let_def loader_len_toy batch_loss_toy assms path_toy
        torch_save_def dict_copy_def state_dict_of_def)
qed

lemma obj_fridge: "obj fridge_world = fridge_rnn" "networks fridge_world 0 = - 2"
  "n_epochs fridge_rnn = 2" "disk fridge_world = (\<lambda>path. None)"
  by (simp_all add: fridge_world_def fridge_rnn_def)

lemma train_toy:
  "train_model toy_backend fridge_world 0 toy_train_loader toy_val_loader ''fridge'' 0 =
     (None, fridge_world\<lparr>networks := (networks fridge_world)(0 := 0),
                         disk := (disk fridge_world)(''rnn-temp-weights-fridge-epoch0.pth'' := Some (- 1))\<rparr>)"
  by (simp add: train_model_def obj_fridge numeral_2_eq_2 run_epoch_toy Let_def
      load_state_dict_def)

text \<open>
  Claim C2, on a run of two epochs. The toy network starts at the weight \<open>-2\<close>;
  the first epoch ends at the weight \<open>-1\<close> with the validation loss 0, the second
  at the weight 0 with the validation loss 1. The checkpoint file holds the weights
  \<open>-1\<close> of the epoch with the minimum validation loss, written when that minimum was
  reached; the live network holds the weight 0 of the last epoch after the call, not
  the weights \<open>-1\<close> of the best epoch the claim promises.
\<close>

theorem train_model_keeps_last_weights:
  "fst (train_model toy_backend fridge_world 0 toy_train_loader toy_val_loader ''fridge'' 0) = None
   \<and> networks (snd (train_model toy_backend fridge_world 0 toy_train_loader toy_val_loader
                      ''fridge'' 0)) 0 = 0
   \<and> disk (snd (train_model toy_backend fridge_world 0 toy_train_loader toy_val_loader
                  ''fridge'' 0)) ''rnn-temp-weights-fridge-epoch0.pth'' = Some (- 1)
   \<and> batch_loss toy_backend (- 1) toy_samples = Fin 0
   \<and> batch_loss toy_backend 0 toy_samples = Fin 1"
  by (simp add: train_toy batch_loss_toy)

subsection \<open>Training calls on concrete inputs\<close>

lemma kettle_stats:
  "appliance_stats (concat kettle_chunks) = \<lparr>mean = Fin 10, std = Fin 100\<rparr>"
  by (simp add: appliance_stats_def kettle_chunks_def np_mean_def np_std_def np_sum_def
      fl_sub_def Let_def)

lemma prepare_fresh:
  "prepare_training (obj fresh_world) [spike_chunk] [(''kettle'', kettle_chunks)] True
     = (kettle_rnn, Inr (spike_windows, [(''kettle'', kettle_targets)]))"
proof -
  have s: "set_appliance_params rnn_seq3 [(''kettle'', kettle_chunks)] = (None, kettle_rnn)"
    by (simp add: pd_concat_def kettle_stats kettle_rnn_def)
       (simp add: kettle_chunks_def rnn_seq3_def)
  have w: "window_all kettle_rnn [spike_chunk] = Inr [spike_windows]"
    by (rule window_all_spike) (simp_all add: kettle_rnn_def rnn_seq3_def)
  have n: "normalize_appliances kettle_rnn [(''kettle'', kettle_chunks)]
      = Inr [(''kettle'', [[[Fin 0], [Fin 0], [Fin 0], [Fin 0], [Fin 0], [Fin 0], [Fin 0]]])]"
    by (simp add: kettle_rnn_def dict_lookup_def kettle_chunks_def fl_sub_def Let_def)
  have c: "call_preprocessing kettle_rnn [spike_chunk] [(''kettle'', kettle_chunks)] ''train''
      = Inr (TrainData [spike_windows]
          [(''kettle'', [[[Fin 0], [Fin 0], [Fin 0], [Fin 0], [Fin 0], [Fin 0], [Fin 0]]])])"
    by (simp add: call_preprocessing_def w n del: window_all.simps normalize_appliances.simps)
  have e: "appliance_params rnn_seq3 = []" "obj fresh_world = rnn_seq3"
    by (simp_all add: fresh_world_def rnn_seq3_def)
  have sl: "sequence_length kettle_rnn = 3" by (simp add: kettle_rnn_def rnn_seq3_def)
  show ?thesis
    by (simp add: prepare_training_def e s c pd_concat_def sl reshape_spike kettle_targets_def
        del: set_appliance_params.simps)
qed

lemma partial_fit_fresh:
  "partial_fit toy_backend fresh_world [spike_chunk] [(''kettle'', kettle_chunks)] True 0
     = (None, fresh_world\<lparr>networks := (networks fresh_world)(0 := 0), next_ref := 1,
                obj := kettle_rnn\<lparr>models := [(''kettle'', 0)]\<rparr>\<rparr>)"
proof -
  have l: "length (concat spike_windows) = 21" "length spike_windows = 7"
    by (simp_all add: spike_windows_def)
  have "partial_fit toy_backend fresh_world [spike_chunk] [(''kettle'', kettle_chunks)] True 0
      = fit_appliances toy_backend spike_windows 0 [(''kettle'', kettle_targets)]
          (fresh_world\<lparr>obj := kettle_rnn\<rparr>)"
    by (simp add: partial_fit_def prepare_fresh del: fit_appliances.simps)
  also have "\<dots> = (None, fresh_world\<lparr>networks := (networks fresh_world)(0 := 0), next_ref := 1,
                obj := kettle_rnn\<lparr>models := [(''kettle'', 0)]\<rparr>\<rparr>)"
    by (simp add: l dict_lookup_def kettle_rnn_def rnn_seq3_def
        return_network_def toy_backend_def fresh_world_def)
  finally show ?thesis .
qed

lemma partial_fit_unprocessed:
  "partial_fit toy_backend fridge_world [spike_windows] [(''kettle'', kettle_chunks)] False 0
     = (None, fridge_world\<lparr>networks := (networks fridge_world)(1 := 0), next_ref := 2,
                obj := fridge_rnn\<lparr>models := [(''fridge'', 0), (''kettle'', 1)]\<rparr>\<rparr>)"
proof -
  have l: "length (concat spike_windows) = 21" "length spike_windows = 7"
    by (simp_all add: spike_windows_def)
  have e: "appliance_params fridge_rnn \<noteq> []" "sequence_length fridge_rnn = 3"
    "obj fridge_world = fridge_rnn"
    by (simp_all add: fridge_rnn_def fridge_world_def)
  have p: "prepare_training (obj fridge_world) [spike_windows] [(''kettle'', kettle_chunks)] False
     = (fridge_rnn, Inr (spike_windows, [(''kettle'', concat (concat kettle_chunks))]))"
    using e(1) by (simp add: prepare_training_def e(2,3) pd_concat_def reshape_spike)
       (simp add: kettle_chunks_def)
  have "partial_fit toy_backend fridge_world [spike_windows] [(''kettle'', kettle_chunks)] False 0
      = fit_appliances toy_backend spike_windows 0 [(''kettle'', concat (concat kettle_chunks))]
          (fridge_world\<lparr>obj := fridge_rnn\<rparr>)"
    by (simp add: partial_fit_def p del: fit_appliances.simps)
  also have "\<dots> = (None, fridge_world\<lparr>networks := (networks fridge_world)(1 := 0), next_ref := 2,
                obj := fridge_rnn\<lparr>models := [(''fridge'', 0), (''kettle'', 1)]\<rparr>\<rparr>)"
    by (simp add: l dict_lookup_def fridge_rnn_def
        return_network_def toy_backend_def fridge_world_def)
  finally show ?thesis .
qed

subsection \<open>Training for an appliance without statistics\<close>

lemma normalize_appliances_unknown:
  assumes "(app_name, dfs) \<in> set submeters_lst"
    and "dict_lookup (appliance_params self) app_name = None"
  shows "normalize_appliances self submeters_lst = Inl ApplianceNotFoundError"
  using assms(1)
proof (induction submeters_lst)
  case Nil
  then show ?case by simp
next
  case (Cons p rest)
  obtain n d where p: "p = (n, d)" by (cases p)
  show ?case
  proof (cases "dict_lookup (appliance_params self) n")
    case None
    then show ?thesis using p by simp
  next
    case (Some st)
    with assms(2) have "n \<noteq> app_name" by auto
    with Cons.prems p have "(app_name, dfs) \<in> set rest" by auto
    from Cons.IH[OF this] show ?thesis using p Some by (simp add: Let_def)
  qed
qed

lemma window_all_succeeds:
  assumes "0 \<le> sequence_length self"
  shows "\<exists>dfs. window_all self mains_lst = Inr dfs"
proof (induction mains_lst)
  case Nil
  show ?case by simp
next
  case (Cons mains rest)
  have "\<exists>df. window_mains self mains = Inr df"
    using assms by (simp add: window_mains_def np_pad_def Let_def)
  with Cons show ?case by auto
qed

text \<open>
  Claim C3, as amended. A training call with preprocessing on whose store is not
  empty at entry and has no entry for some requested appliance (the window length
  being positive) raises \<^verbatim>\<open>ApplianceNotFoundError\<close> in the preprocessing and leaves
  the whole state as it was: no statistics are stored or substituted, no network is
  created or trained, no file is written.
\<close>

theorem partial_fit_unknown_appliance:
  assumes "do_preprocessing"
    and "appliance_params (obj W) \<noteq> []"
    and "(app_name, dfs) \<in> set train_appliances"
    and "dict_lookup (appliance_params (obj W)) app_name = None"
    and "0 < sequence_length (obj W)"
  shows "partial_fit b W train_main train_appliances do_preprocessing current_epoch
           = (Some ApplianceNotFoundError, W)"
proof -
  from window_all_succeeds[of "obj W" train_main] assms(5) obtain mains
    where m: "window_all (obj W) train_main = Inr mains" by auto
  have "call_preprocessing (obj W) train_main train_appliances ''train''
          = Inl ApplianceNotFoundError"
    using m normalize_appliances_unknown[OF assms(3,4)] by (simp add: call_preprocessing_def)
  then have "prepare_training (obj W) train_main train_appliances do_preprocessing
          = (obj W, Inl ApplianceNotFoundError)"
    using assms(1,2) by (simp add: prepare_training_def)
  then show ?thesis by (simp add: partial_fit_def)
qed

theorem partial_fit_unknown_appliance_witness:
  "partial_fit toy_backend fridge_world [spike_chunk] [(''kettle'', kettle_chunks)] True 0
     = (Some ApplianceNotFoundError, fridge_world)"
proof -
  have 1: "appliance_params (obj fridge_world) \<noteq> []"
    and 2: "dict_lookup (appliance_params (obj fridge_world)) ''kettle'' = None"
    and 3: "0 < sequence_length (obj fridge_world)"
    by (simp_all add: fridge_world_def fridge_rnn_def dict_lookup_def)
  have 4: "(''kettle'', kettle_chunks) \<in> set [(''kettle'', kettle_chunks)]" by simp
  show ?thesis
    by (rule partial_fit_unknown_appliance[OF _ 1 4 2 3]) simp
qed

text \<open>
  The claim as stated fails where the code has a guard. With
  \<open>do_preprocessing = False\<close> the statistics are never looked up: the call for a
  kettle without an entry in the store returns without an error and the kettle has a
  network in the registry. With an empty store the statistics of every requested
  appliance are computed from the data first, and the call returns without an error.
\<close>

theorem partial_fit_unknown_appliance_counterexample:
  "dict_lookup (appliance_params (obj fridge_world)) ''kettle'' = None
   \<and> fst (partial_fit toy_backend fridge_world [spike_windows] [(''kettle'', kettle_chunks)]
            False 0) = None
   \<and> dict_lookup (models (obj (snd (partial_fit toy_backend fridge_world [spike_windows]
         [(''kettle'', kettle_chunks)] False 0)))) ''kettle'' = Some 1
   \<and> dict_lookup (appliance_params (obj fresh_world)) ''kettle'' = None
   \<and> fst (partial_fit toy_backend fresh_world [spike_chunk] [(''kettle'', kettle_chunks)] True 0)
       = None"
  by (simp add: partial_fit_fresh partial_fit_unprocessed)
     (simp add: fresh_world_def fridge_world_def fridge_rnn_def rnn_seq3_def dict_lookup_def)

subsection \<open>Training with fewer than 11 windows\<close>

lemma set_appliance_params_frame:
  "set_appliance_params self apps = (err, self') \<Longrightarrow>
     models self' = models self \<and> sequence_length self' = sequence_length self"
proof (induction apps arbitrary: self)
  case Nil
  then show ?case by simp
next
  case (Cons p apps)
  obtain n d where p: "p = (n, d)" by (cases p)
  show ?case
  proof (cases "pd_concat d")
    case (Inl e)
    with Cons.prems p show ?thesis by simp
  next
    case (Inr df)
    with Cons.prems p Cons.IH show ?thesis by fastforce
  qed
qed

lemma normalize_appliances_names:
  "normalize_appliances self subs = Inr apps \<Longrightarrow> map fst apps = map fst subs"
  by (induction subs arbitrary: apps) (auto simp: Let_def split: option.splits sum.splits)

lemma concat_appliances_names:
  "concat_appliances apps = Inr powers \<Longrightarrow> map fst powers = map fst apps"
  by (induction apps arbitrary: powers) (auto split: sum.splits)

lemma prepare_training_frame:
  assumes "prepare_training self train_main train_appliances do_preprocessing
             = (self1, Inr (windows, powers))"
  shows "models self1 = models self \<and> sequence_length self1 = sequence_length self
           \<and> map fst powers = map fst train_appliances"
proof -
  obtain err s1 where e: "(if length (appliance_params self) = 0
             then set_appliance_params self train_appliances
             else (None, self)) = (err, s1)"
    by (cases "if length (appliance_params self) = 0
             then set_appliance_params self train_appliances
             else (None, self)")
  then have fr: "models s1 = models self \<and> sequence_length s1 = sequence_length self"
    using set_appliance_params_frame by (auto split: if_splits)
  from assms e have s: "self1 = s1" and en: "err = None"
    by (auto simp: prepare_training_def split: option.splits sum.splits preprocessed.splits)
  from assms e en obtain mains apps where
    p: "(if do_preprocessing
           then call_preprocessing s1 train_main train_appliances ''train''
           else Inr (TrainData train_main train_appliances)) = Inr (TrainData mains apps)"
    and c: "concat_appliances apps = Inr powers"
    by (auto simp: prepare_training_def split: option.splits sum.splits preprocessed.splits)
  have "map fst apps = map fst train_appliances"
    using p normalize_appliances_names
    by (auto simp: call_preprocessing_def split: if_splits sum.splits)
  with concat_appliances_names[OF c] fr s show ?thesis by simp
qed

lemma dict_lookup_update:
  "dict_lookup (AList.update k v al) k' = (if k' = k then Some v else dict_lookup al k')"
  by (simp add: dict_lookup_def update_conv')

lemma fit_appliances_few_windows:
  assumes "length train_main < 11"
  shows "\<exists>W'. fit_appliances b train_main current_epoch powers W = (None, W')
     \<and> disk W' = disk W
     \<and> next_ref W \<le> next_ref W'
     \<and> (\<forall>r. r < next_ref W \<longrightarrow> networks W' r = networks W r)
     \<and> (\<forall>name r. dict_lookup (models (obj W)) name = Some r \<longrightarrow>
           dict_lookup (models (obj W')) name = Some r)
     \<and> (\<forall>name. dict_lookup (models (obj W)) name = None \<longrightarrow>
           (if name \<in> fst ` set powers
            then \<exists>r g. dict_lookup (models (obj W')) name = Some r \<and> next_ref W \<le> r
                   \<and> r < next_ref W'
                   \<and> networks W' r = fst (new_network b (sequence_length (obj W)) g)
            else dict_lookup (models (obj W')) name = None))
     \<and> obj W' = (obj W)\<lparr>models := models (obj W')\<rparr>"
proof (induction powers arbitrary: W)
  case Nil
  show ?case by simp
next
  case (Cons p powers)
  obtain n y where p: "p = (n, y)" by (cases p)
  define W1 where "W1 =
     (if dict_lookup (models (obj W)) n = None then
        (let (r, W') = return_network b W
         in W'\<lparr>obj := (obj W')\<lparr>models := AList.update n r (models (obj W'))\<rparr>\<rparr>)
      else W)"
  have skip: "\<not> (0 < length (concat train_main) \<and> 10 < length train_main)"
    using assms by simp
  have l1: "dict_lookup (models (obj W1)) n \<noteq> None"
    by (auto simp: W1_def return_network_def Let_def dict_lookup_update split: prod.splits)
  have step: "fit_appliances b train_main current_epoch (p # powers) W
      = fit_appliances b train_main current_epoch powers W1"
    using p skip l1 by (auto simp: W1_def[symmetric] Let_def split: option.splits)
  from Cons.IH[of W1] obtain W' where
    r: "fit_appliances b train_main current_epoch powers W1 = (None, W')"
    and d: "disk W' = disk W1"
    and nx: "next_ref W1 \<le> next_ref W'"
    and nw: "\<forall>r. r < next_ref W1 \<longrightarrow> networks W' r = networks W1 r"
    and ex: "\<forall>name r. dict_lookup (models (obj W1)) name = Some r \<longrightarrow>
           dict_lookup (models (obj W')) name = Some r"
    and nw2: "\<forall>name. dict_lookup (models (obj W1)) name = None \<longrightarrow>
           (if name \<in> fst ` set powers
            then \<exists>r g. dict_lookup (models (obj W')) name = Some r \<and> next_ref W1 \<le> r
                   \<and> r < next_ref W'
                   \<and> networks W' r = fst (new_network b (sequence_length (obj W1)) g)
            else dict_lookup (models (obj W')) name = None)"
    and ob: "obj W' = (obj W1)\<lparr>models := models (obj W')\<rparr>"
    by blast
  have F: "fit_appliances b train_main current_epoch (p # powers) W = (None, W')"
    using step r by simp
  have "disk W' = disk W
     \<and> next_ref W \<le> next_ref W'
     \<and> (\<forall>r. r < next_ref W \<longrightarrow> networks W' r = networks W r)
     \<and> (\<forall>name r. dict_lookup (models (obj W)) name = Some r \<longrightarrow>
           dict_lookup (models (obj W')) name = Some r)
     \<and> (\<forall>name. dict_lookup (models (obj W)) name = None \<longrightarrow>
           (if name \<in> fst ` set (p # powers)
            then \<exists>r g. dict_lookup (models (obj W')) name = Some r \<and> next_ref W \<le> r
                   \<and> r < next_ref W'
                   \<and> networks W' r = fst (new_network b (sequence_length (obj W)) g)
            else dict_lookup (models (obj W')) name = None))
     \<and> obj W' = (obj W)\<lparr>models := models (obj W')\<rparr>"
  proof (cases "dict_lookup (models (obj W)) n = None")
    case False
    then have w: "W1 = W" unfolding W1_def by auto
    have C: "\<forall>name. dict_lookup (models (obj W)) name = None \<longrightarrow>
           (if name \<in> fst ` set (p # powers)
            then \<exists>r g. dict_lookup (models (obj W')) name = Some r \<and> next_ref W \<le> r
                   \<and> r < next_ref W'
                   \<and> networks W' r = fst (new_network b (sequence_length (obj W)) g)
            else dict_lookup (models (obj W')) name = None)"
    proof (intro allI impI)
      fix name assume a: "dict_lookup (models (obj W)) name = None"
      with False have "name \<noteq> n" by auto
      then have mem: "(name \<in> fst ` set (p # powers)) = (name \<in> fst ` set powers)"
        using p by auto
      from nw2[unfolded w, rule_format, OF a]
      show "if name \<in> fst ` set (p # powers)
            then \<exists>r g. dict_lookup (models (obj W')) name = Some r \<and> next_ref W \<le> r
                   \<and> r < next_ref W'
                   \<and> networks W' r = fst (new_network b (sequence_length (obj W)) g)
            else dict_lookup (models (obj W')) name = None"
        unfolding mem .
    qed
    show ?thesis
      using d[unfolded w] nx[unfolded w] nw[unfolded w] ex[unfolded w] C ob[unfolded w]
      by (intro conjI) assumption+
  next
    case True
    obtain wt g where ng: "new_network b (sequence_length (obj W)) (rng W) = (wt, g)"
      by (cases "new_network b (sequence_length (obj W)) (rng W)")
    have w1: "W1 = W\<lparr>networks := (networks W)(next_ref W := wt), next_ref := Suc (next_ref W),
                      rng := g,
                      obj := (obj W)\<lparr>models := AList.update n (next_ref W) (models (obj W))\<rparr>\<rparr>"
      using True ng by (simp add: W1_def return_network_def Let_def)
    have d1: "disk W1 = disk W" and n1: "next_ref W1 = Suc (next_ref W)"
      and nt1: "\<forall>r. r < next_ref W \<longrightarrow> networks W1 r = networks W r"
      and f1: "networks W1 (next_ref W) = wt"
      and s1: "sequence_length (obj W1) = sequence_length (obj W)"
      and m1: "models (obj W1) = AList.update n (next_ref W) (models (obj W))"
      and o1: "obj W1 = (obj W)\<lparr>models := AList.update n (next_ref W) (models (obj W))\<rparr>"
      by (simp_all add: w1)
    have A: "\<forall>r. r < next_ref W \<longrightarrow> networks W' r = networks W r"
    proof (intro allI impI)
      fix r assume "r < next_ref W"
      then show "networks W' r = networks W r" using nw n1 nt1 by simp
    qed
    have B: "\<forall>name r. dict_lookup (models (obj W)) name = Some r \<longrightarrow>
           dict_lookup (models (obj W')) name = Some r"
    proof (intro allI impI)
      fix name r assume a: "dict_lookup (models (obj W)) name = Some r"
      with True have "name \<noteq> n" by auto
      then have "dict_lookup (models (obj W1)) name = Some r"
        using a m1 by (simp add: dict_lookup_update)
      with ex show "dict_lookup (models (obj W')) name = Some r" by blast
    qed
    have C: "\<forall>name. dict_lookup (models (obj W)) name = None \<longrightarrow>
           (if name \<in> fst ` set (p # powers)
            then \<exists>r g. dict_lookup (models (obj W')) name = Some r \<and> next_ref W \<le> r
                   \<and> r < next_ref W'
                   \<and> networks W' r = fst (new_network b (sequence_length (obj W)) g)
            else dict_lookup (models (obj W')) name = None)"
    proof (intro allI impI)
      fix name assume a: "dict_lookup (models (obj W)) name = None"
      show "if name \<in> fst ` set (p # powers)
            then \<exists>r g. dict_lookup (models (obj W')) name = Some r \<and> next_ref W \<le> r
                   \<and> r < next_ref W'
                   \<and> networks W' r = fst (new_network b (sequence_length (obj W)) g)
            else dict_lookup (models (obj W')) name = None"
      proof (cases "name = n")
        case True
        have mem: "name \<in> fst ` set (p # powers)" using True p by simp
        have "dict_lookup (models (obj W1)) n = Some (next_ref W)"
          using m1 by (simp add: dict_lookup_update)
        with ex have l: "dict_lookup (models (obj W')) name = Some (next_ref W)"
          using True by blast
        have "networks W' (next_ref W) = wt" using nw n1 f1 by simp
        then have fr: "networks W' (next_ref W)
            = fst (new_network b (sequence_length (obj W)) (rng W))"
          using ng by simp
        have lt: "next_ref W < next_ref W'" using nx n1 by simp
        have "\<exists>r g. dict_lookup (models (obj W')) name = Some r \<and> next_ref W \<le> r
                   \<and> r < next_ref W'
                   \<and> networks W' r = fst (new_network b (sequence_length (obj W)) g)"
          using l fr lt by blast
        then show ?thesis using mem by simp
      next
        case False
        then have mem: "(name \<in> fst ` set (p # powers)) = (name \<in> fst ` set powers)"
          using p by auto
        have l1: "dict_lookup (models (obj W1)) name = None"
          using False a m1 by (simp add: dict_lookup_update)
        show ?thesis
        proof (cases "name \<in> fst ` set powers")
          case True
          with nw2[rule_format, OF l1] obtain r g where
            "dict_lookup (models (obj W')) name = Some r" "next_ref W1 \<le> r"
            "r < next_ref W'"
            "networks W' r = fst (new_network b (sequence_length (obj W1)) g)"
            by auto
          then have "dict_lookup (models (obj W')) name = Some r \<and> next_ref W \<le> r
                   \<and> r < next_ref W'
                   \<and> networks W' r = fst (new_network b (sequence_length (obj W)) g)"
            using n1 s1 by simp
          then have "\<exists>r g. dict_lookup (models (obj W')) name = Some r \<and> next_ref W \<le> r
                   \<and> r < next_ref W'
                   \<and> networks W' r = fst (new_network b (sequence_length (obj W)) g)"
            by blast
          then show ?thesis unfolding mem using True by simp
        next
          case False
          with nw2[rule_format, OF l1] show ?thesis unfolding mem by simp
        qed
      qed
    qed
    have D: "obj W' = (obj W)\<lparr>models := models (obj W')\<rparr>"
      using ob by (simp add: o1)
    have E: "next_ref W \<le> next_ref W'" using nx n1 by simp
    have G: "disk W' = disk W" using d d1 by simp
    show ?thesis using G E A B C D by (intro conjI) assumption+
  qed
  with F show ?case by blast
qed

text \<open>
  Claim C4, as amended. When the lines before the loop yield fewer than 11 windows,
  \<^verbatim>\<open>partial_fit\<close> returns without an error and trains nothing: no file is written,
  every network that existed keeps its weights and every entry of the registry stays.
  An appliance of the call that was not in the registry is in it after the call, with a
  new network whose weights are those of its random initialisation; the registry gains
  no other entry.
\<close>

theorem partial_fit_few_windows:
  assumes "prepare_training (obj W) train_main train_appliances do_preprocessing
             = (self1, Inr (windows, powers))"
    and "length windows < 11"
  shows "\<exists>W'. partial_fit b W train_main train_appliances do_preprocessing current_epoch
                 = (None, W')
     \<and> disk W' = disk W
     \<and> (\<forall>r. r < next_ref W \<longrightarrow> networks W' r = networks W r)
     \<and> (\<forall>name r. dict_lookup (models (obj W)) name = Some r \<longrightarrow>
           dict_lookup (models (obj W')) name = Some r)
     \<and> (\<forall>name. dict_lookup (models (obj W)) name = None \<longrightarrow>
           (if name \<in> fst ` set train_appliances
            then \<exists>r g. dict_lookup (models (obj W')) name = Some r \<and> next_ref W \<le> r
                   \<and> networks W' r = fst (new_network b (sequence_length (obj W)) g)
            else dict_lookup (models (obj W')) name = None))"
proof -
  let ?W1 = "W\<lparr>obj := self1\<rparr>"
  from prepare_training_frame[OF assms(1)]
  have fr: "models self1 = models (obj W)" "sequence_length self1 = sequence_length (obj W)"
    "map fst powers = map fst train_appliances" by auto
  have names: "fst ` set powers = fst ` set train_appliances"
    using fr(3) by (metis set_map)
  from fit_appliances_few_windows[OF assms(2), of b current_epoch powers ?W1] obtain W' where
    r: "fit_appliances b windows current_epoch powers ?W1 = (None, W')"
    and d: "disk W' = disk ?W1"
    and nw: "\<forall>r. r < next_ref ?W1 \<longrightarrow> networks W' r = networks ?W1 r"
    and ex: "\<forall>name r. dict_lookup (models (obj ?W1)) name = Some r \<longrightarrow>
           dict_lookup (models (obj W')) name = Some r"
    and nw2: "\<forall>name. dict_lookup (models (obj ?W1)) name = None \<longrightarrow>
           (if name \<in> fst ` set powers
            then \<exists>r g. dict_lookup (models (obj W')) name = Some r \<and> next_ref ?W1 \<le> r
                   \<and> r < next_ref W'
                   \<and> networks W' r = fst (new_network b (sequence_length (obj ?W1)) g)
            else dict_lookup (models (obj W')) name = None)"
    by blast
  have F: "partial_fit b W train_main train_appliances do_preprocessing current_epoch = (None, W')"
    using assms(1) r by (simp add: partial_fit_def)
  have G: "disk W' = disk W" using d by simp
  have A: "\<forall>r. r < next_ref W \<longrightarrow> networks W' r = networks W r" using nw by simp
  have B: "\<forall>name r. dict_lookup (models (obj W)) name = Some r \<longrightarrow>
           dict_lookup (models (obj W')) name = Some r"
    using ex fr(1) by simp
  have C: "\<forall>name. dict_lookup (models (obj W)) name = None \<longrightarrow>
           (if name \<in> fst ` set train_appliances
            then \<exists>r g. dict_lookup (models (obj W')) name = Some r \<and> next_ref W \<le> r
                   \<and> networks W' r = fst (new_network b (sequence_length (obj W)) g)
            else dict_lookup (models (obj W')) name = None)"
  proof (intro allI impI)
    fix name assume a: "dict_lookup (models (obj W)) name = None"
    then have a1: "dict_lookup (models (obj ?W1)) name = None" using fr(1) by simp
    show "if name \<in> fst ` set train_appliances
            then \<exists>r g. dict_lookup (models (obj W')) name = Some r \<and> next_ref W \<le> r
                   \<and> networks W' r = fst (new_network b (sequence_length (obj W)) g)
            else dict_lookup (models (obj W')) name = None"
    proof (cases "name \<in> fst ` set train_appliances")
      case True
      with nw2[rule_format, OF a1] names obtain r g where
        "dict_lookup (models (obj W')) name = Some r" "next_ref ?W1 \<le> r"
        "networks W' r = fst (new_network b (sequence_length (obj ?W1)) g)"
        by auto
      then have "dict_lookup (models (obj W')) name = Some r \<and> next_ref W \<le> r
                   \<and> networks W' r = fst (new_network b (sequence_length (obj W)) g)"
        using fr(2) by simp
      then show ?thesis using True by auto
    next
      case False
      with nw2[rule_format, OF a1] names show ?thesis by simp
    qed
  qed
  show ?thesis using F G A B C by blast
qed

theorem partial_fit_few_windows_witness:
  "length spike_windows < 11
   \<and> fst (partial_fit toy_backend fresh_world [spike_chunk] [(''kettle'', kettle_chunks)] True 0)
       = None
   \<and> disk (snd (partial_fit toy_backend fresh_world [spike_chunk] [(''kettle'', kettle_chunks)]
                  True 0)) = disk fresh_world
   \<and> (\<exists>r g. dict_lookup (models (obj (snd (partial_fit toy_backend fresh_world [spike_chunk]
                  [(''kettle'', kettle_chunks)] True 0)))) ''kettle'' = Some r
          \<and> networks (snd (partial_fit toy_backend fresh_world [spike_chunk]
                  [(''kettle'', kettle_chunks)] True 0)) r = fst (new_network toy_backend 3 g))"
proof -
  have l: "length spike_windows < 11" by (simp add: spike_windows_def)
  have k: "dict_lookup (models (obj fresh_world)) ''kettle'' = None"
    and n: "sequence_length (obj fresh_world) = 3"
    by (simp_all add: fresh_world_def rnn_seq3_def dict_lookup_def)
  have m: "''kettle'' \<in> fst ` set [(''kettle'', kettle_chunks)]" by simp
  from partial_fit_few_windows[OF prepare_fresh l, of toy_backend 0] obtain W' where
    r: "partial_fit toy_backend fresh_world [spike_chunk] [(''kettle'', kettle_chunks)] True 0
          = (None, W')"
    and d: "disk W' = disk fresh_world"
    and c: "\<forall>name. dict_lookup (models (obj fresh_world)) name = None \<longrightarrow>
           (if name \<in> fst ` set [(''kettle'', kettle_chunks)]
            then \<exists>r g. dict_lookup (models (obj W')) name = Some r \<and> next_ref fresh_world \<le> r
                   \<and> networks W' r
                       = fst (new_network toy_backend (sequence_length (obj fresh_world)) g)
            else dict_lookup (models (obj W')) name = None)"
    by blast
  from c[rule_format, OF k] m n obtain r' g where
    "dict_lookup (models (obj W')) ''kettle'' = Some r'"
    "networks W' r' = fst (new_network toy_backend 3 g)"
    by auto
  with r d l show ?thesis by auto
qed

text \<open>
  The claim as stated fails on its last part: the network of an appliance is created
  and registered before the number of windows is looked at. Here the kettle is not in
  the registry before the call, the call has 7 windows, and the kettle is in the
  registry after it.
\<close>

theorem partial_fit_few_windows_counterexample:
  "dict_lookup (models (obj fresh_world)) ''kettle'' = None
   \<and> prepare_training (obj fresh_world) [spike_chunk] [(''kettle'', kettle_chunks)] True
       = (kettle_rnn, Inr (spike_windows, [(''kettle'', kettle_targets)]))
   \<and> length spike_windows = 7
   \<and> fst (partial_fit toy_backend fresh_world [spike_chunk] [(''kettle'', kettle_chunks)] True 0)
       = None
   \<and> dict_lookup (models (obj (snd (partial_fit toy_backend fresh_world [spike_chunk]
         [(''kettle'', kettle_chunks)] True 0)))) ''kettle'' = Some 0"
  by (simp add: partial_fit_fresh prepare_fresh)
     (simp add: fresh_world_def rnn_seq3_def dict_lookup_def spike_windows_def)

subsection \<open>Normalisation and denormalisation\<close>

text \<open>In exact arithmetic the denormalisation of \<^verbatim>\<open>disaggregate_chunk\<close>
  (\<^verbatim>\<open>mean + prediction * std\<close>) inverts the normalisation of \<^verbatim>\<open>call_preprocessing\<close>
  (\<^verbatim>\<open>(x - mean) / std\<close>) for finite values and a standard deviation that is not zero.
  The rounding of the floating-point operations is outside this model.\<close>

lemma denormalize_normalize_exact:
  assumes "s \<noteq> 0"
  shows "fl_add (Fin m) (fl_mul (fl_div (fl_sub (Fin x) (Fin m)) (Fin s)) (Fin s)) = Fin x"
  using assms by (simp add: fl_sub_def)

end
